theory Spec2Isabelle
  imports Complex_Main "HOL-Library.Sublist" "HOL-Library.Char_ord"
    "HOL-Library.List_Lexorder" "HOL-Library.Product_Lexorder" "HOL-Library.Multiset"
begin

section \<open>Data model\<close>

text \<open>
  A pandas DataFrame is modelled row-wise: an ordered list of column names and a list of
  rows, each row a list of cells in column order. A cell is an integer, a text, a missing
  value, or a quotient (the result of the true division of two integers, kept as an exact
  rational: the rounding of binary floating point is outside this model). Integers are
  unbounded: the wrap-around of a 64-bit sum is outside this model too.
  Column names and labels are ASCII texts.
\<close>

datatype cell = Num int | Flt rat | Str string | NA

type_synonym row = "cell list"

record dataframe =
  columns :: "string list"
  rows :: "row list"

text \<open>The exceptions of Python and pandas that the modelled code can meet.\<close>

datatype error = ValueError | KeyError | TypeError

text \<open>
  A label mapping is the dict \<open>label -> column name or None\<close> of the session state;
  \<open>dict.get\<close> gives \<open>None\<close> for an absent label and for a label stored with \<open>None\<close>.
\<close>

type_synonym mapping = "string \<rightharpoonup> string"

text \<open>The value of column \<open>c\<close> in a row (first column of that name).\<close>

definition cell_at :: "string list \<Rightarrow> string \<Rightarrow> row \<Rightarrow> cell" where
  "cell_at cols c r = (case map_of (zip cols r) c of Some v \<Rightarrow> v | None \<Rightarrow> NA)"

definition column_values :: "dataframe \<Rightarrow> string \<Rightarrow> cell list" where
  "column_values df c = map (cell_at (columns df) c) (rows df)"

fun is_num :: "cell \<Rightarrow> bool" where
  "is_num (Num _) = True"
| "is_num (Flt _) = True"
| "is_num _ = False"

fun is_str :: "cell \<Rightarrow> bool" where
  "is_str (Str _) = True"
| "is_str _ = False"

text \<open>
  The order Python and pandas sort values by: numbers by value, texts lexicographically.
  pandas puts numbers before texts when it sorts the keys of a mixed column.
\<close>

fun cell_key :: "cell \<Rightarrow> nat \<times> rat \<times> string" where
  "cell_key (Num i) = (0, of_int i, [])"
| "cell_key (Flt q) = (0, q, [])"
| "cell_key (Str s) = (1, 0, s)"
| "cell_key NA = (2, 0, [])"

definition row_key :: "row \<Rightarrow> (nat \<times> rat \<times> string) list" where
  "row_key r = map cell_key r"

text \<open>Running a list of fallible computations stops at the first exception.\<close>

fun collect :: "(error + 'a) list \<Rightarrow> error + 'a list" where
  "collect [] = Inr []"
| "collect (x # xs) =
     (case x of Inl e \<Rightarrow> Inl e
      | Inr v \<Rightarrow> (case collect xs of Inl e \<Rightarrow> Inl e | Inr vs \<Rightarrow> Inr (v # vs)))"

section \<open>Column Mapper: \<open>suggest_default\<close>\<close>

definition char_lower :: "char \<Rightarrow> char" where
  "char_lower c =
     (if CHR ''A'' \<le> c \<and> c \<le> CHR ''Z'' then char_of (of_char c + (32::nat)) else c)"

definition lower :: "string \<Rightarrow> string" where
  "lower s = map char_lower s"

text \<open>Python's \<open>a in b\<close> on strings, \<open>str.endswith\<close> and \<open>str.startswith\<close>.\<close>

definition str_in :: "string \<Rightarrow> string \<Rightarrow> bool" where
  "str_in a b = sublist a b"

definition endswith :: "string \<Rightarrow> string \<Rightarrow> bool" where
  "endswith s a = suffix a s"

definition startswith :: "string \<Rightarrow> string \<Rightarrow> bool" where
  "startswith s a = prefix a s"

text \<open>The loop over \<open>cols\<close>, with its chain of \<open>if ... return c\<close> in the source's order.\<close>

fun suggest_default :: "string \<Rightarrow> string list \<Rightarrow> string option" where
  "suggest_default label [] = None"
| "suggest_default label (c # cols) =
     (let label_lower = lower label; c_lower = lower c in
      if str_in label_lower c_lower then Some c
      else if label = ''jaar'' \<and> (str_in ''jaar'' c_lower \<or> str_in ''peil'' c_lower) then Some c
      else if endswith label ''_instelling'' \<and> str_in ''brin'' c_lower then Some c
      else if endswith label ''_sector'' \<and>
              (str_in ''sector'' c_lower \<or> str_in ''sectorkamer'' c_lower \<or> str_in ''domein'' c_lower)
           then Some c
      else if endswith label ''_regio'' \<and> str_in ''regio'' c_lower then Some c
      else if startswith label ''aantal'' \<and>
              (str_in ''aantal'' c_lower \<or> str_in ''stud'' c_lower \<or> str_in ''count'' c_lower)
           then Some c
      else suggest_default label cols)"

text \<open>
  The rules as the specification words them. Two characters are the same letter when they
  are equal or are the capital and the small form of one of the letters A to Z; a word
  occurs in a name, case-insensitively, when some stretch of the name has the length of the
  word and the same letters. A column matches a label when the label occurs in the column
  name case-insensitively, or when the label has a keyword rule and one of its keywords
  occurs in the column name case-insensitively.
\<close>

definition capital :: "char \<Rightarrow> bool" where
  "capital c \<longleftrightarrow> (65::nat) \<le> of_char c \<and> of_char c \<le> (90::nat)"

definition same_letter :: "char \<Rightarrow> char \<Rightarrow> bool" where
  "same_letter c d \<longleftrightarrow>
     c = d
     \<or> (capital c \<and> (of_char d :: nat) = of_char c + 32)
     \<or> (capital d \<and> (of_char c :: nat) = of_char d + 32)"

fun starts_with_ci :: "string \<Rightarrow> string \<Rightarrow> bool" where
  "starts_with_ci name [] = True"
| "starts_with_ci [] (w # word) = False"
| "starts_with_ci (c # name) (w # word) = (same_letter c w \<and> starts_with_ci name word)"

fun contains_ci :: "string \<Rightarrow> string \<Rightarrow> bool" where
  "contains_ci [] word = (word = [])"
| "contains_ci (c # name) word = (starts_with_ci (c # name) word \<or> contains_ci name word)"

definition rule_matches :: "string \<Rightarrow> string \<Rightarrow> bool" where
  "rule_matches label c \<longleftrightarrow>
     contains_ci c label
     \<or> (label = ''jaar'' \<and> (contains_ci c ''jaar'' \<or> contains_ci c ''peil''))
     \<or> (suffix ''_instelling'' label \<and> contains_ci c ''brin'')
     \<or> (suffix ''_sector'' label \<and>
          (contains_ci c ''sector'' \<or> contains_ci c ''sectorkamer'' \<or> contains_ci c ''domein''))
     \<or> (suffix ''_regio'' label \<and> contains_ci c ''regio'')
     \<or> (prefix ''aantal'' label \<and>
          (contains_ci c ''aantal'' \<or> contains_ci c ''stud'' \<or> contains_ci c ''count''))"

section \<open>Categorical Filter: \<open>apply_filter\<close>\<close>

text \<open>
  Python's \<open>sorted\<close> raises \<open>TypeError\<close> when it has to compare a number with a text.
\<close>

definition py_sorted :: "cell list \<Rightarrow> error + cell list" where
  "py_sorted xs =
     (if list_ex is_num xs \<and> list_ex is_str xs then Inl TypeError
      else Inr (sort_key cell_key xs))"

text \<open>\<open>sorted(df[kolomnaam].dropna().unique().tolist())\<close>: the options of the multiselect.\<close>

definition unieke :: "dataframe \<Rightarrow> string \<Rightarrow> error + cell list" where
  "unieke df kolomnaam = py_sorted (remdups (filter (\<lambda>v. v \<noteq> NA) (column_values df kolomnaam)))"

text \<open>\<open>df[df[kolomnaam].isin(selectie)]\<close>: the rows whose value is one of the selection.\<close>

definition isin_rows :: "dataframe \<Rightarrow> string \<Rightarrow> cell list \<Rightarrow> dataframe" where
  "isin_rows df kolomnaam selectie =
     df\<lparr>rows := filter (\<lambda>r. cell_at (columns df) kolomnaam r \<in> set selectie) (rows df)\<rparr>"

text \<open>
  The multiselect widget is the user: a function \<open>widget\<close> from the options shown to the
  values selected. The default selection (\<open>default=unieke\<close>) is the identity.
\<close>

definition apply_filter :: "dataframe \<Rightarrow> string \<Rightarrow> (cell list \<Rightarrow> cell list) \<Rightarrow> error + dataframe" where
  "apply_filter df kolomnaam widget =
     (if kolomnaam \<notin> set (columns df) then Inr df
      else case unieke df kolomnaam of
        Inl e \<Rightarrow> Inl e
      | Inr opties \<Rightarrow>
          (let selectie = widget opties in
           if selectie \<noteq> [] then Inr (isin_rows df kolomnaam selectie) else Inr df))"

definition default_selectie :: "cell list \<Rightarrow> cell list" where
  "default_selectie opties = opties"

section \<open>Join and Aggregation Engine: \<open>combine_teller_noemer\<close>\<close>

subsection \<open>The pandas operations the function calls\<close>

text \<open>
  Addition as \<open>sum\<close> applies it: numbers add, texts concatenate, a number and a text
  raise \<open>TypeError\<close>.
\<close>

fun add_cell :: "cell \<Rightarrow> cell \<Rightarrow> error + cell" where
  "add_cell (Num a) (Num b) = Inr (Num (a + b))"
| "add_cell (Num a) (Flt b) = Inr (Flt (of_int a + b))"
| "add_cell (Flt a) (Num b) = Inr (Flt (a + of_int b))"
| "add_cell (Flt a) (Flt b) = Inr (Flt (a + b))"
| "add_cell (Str a) (Str b) = Inr (Str (a @ b))"
| "add_cell _ _ = Inl TypeError"

fun sum_from :: "cell \<Rightarrow> cell list \<Rightarrow> error + cell" where
  "sum_from acc [] = Inr acc"
| "sum_from acc (x # xs) =
     (case add_cell acc x of Inl e \<Rightarrow> Inl e | Inr s \<Rightarrow> sum_from s xs)"

text \<open>The sum of a group skips missing values; the sum of nothing is 0.\<close>

definition sum_cells :: "cell list \<Rightarrow> error + cell" where
  "sum_cells vs =
     (case filter (\<lambda>v. v \<noteq> NA) vs of [] \<Rightarrow> Inr (Num 0) | x # xs \<Rightarrow> sum_from x xs)"

definition key_of :: "string list \<Rightarrow> string list \<Rightarrow> row \<Rightarrow> row" where
  "key_of cols keys r = map (\<lambda>k. cell_at cols k r) keys"

text \<open>
  \<open>df.groupby(keys)\<close>: rows with a missing value in a key are dropped, and the groups come
  sorted by key.
\<close>

definition group_keys :: "dataframe \<Rightarrow> string list \<Rightarrow> row list" where
  "group_keys df keys =
     sort_key row_key
       (remdups (filter (\<lambda>k. NA \<notin> set k) (map (key_of (columns df) keys) (rows df))))"

definition group_values :: "dataframe \<Rightarrow> string list \<Rightarrow> string \<Rightarrow> row \<Rightarrow> cell list" where
  "group_values df keys col k =
     map (cell_at (columns df) col)
       (filter (\<lambda>r. key_of (columns df) keys r = k) (rows df))"

text \<open>
  \<open>df.groupby(keys)[col].sum().reset_index(name=name)\<close>. \<open>reset_index\<close> inserts every
  key as a column beside the column \<open>name\<close> and raises \<open>ValueError\<close> (cannot insert,
  already exists) when two of these names are equal.
\<close>

definition groupby_sum :: "dataframe \<Rightarrow> string list \<Rightarrow> string \<Rightarrow> string \<Rightarrow> error + dataframe" where
  "groupby_sum df keys col name =
     (case collect (map (\<lambda>k. sum_cells (group_values df keys col k)) (group_keys df keys)) of
        Inl e \<Rightarrow> Inl e
      | Inr totals \<Rightarrow>
          if \<not> distinct (keys @ [name]) then Inl ValueError
          else Inr \<lparr>columns = keys @ [name],
                    rows = map (\<lambda>(k, s). k @ [s]) (zip (group_keys df keys) totals)\<rparr>)"

text \<open>\<open>df.rename(columns={old: new})\<close> renames every column called \<open>old\<close>.\<close>

definition rename_column :: "dataframe \<Rightarrow> string \<Rightarrow> string \<Rightarrow> dataframe" where
  "rename_column df old new =
     df\<lparr>columns := map (\<lambda>c. if c = old then new else c) (columns df)\<rparr>"

text \<open>
  \<open>pd.merge\<close> refuses to join a key column of numbers with a key column of texts
  (\<open>ValueError\<close>: you are trying to merge on int64 and object columns) when both sides
  have rows.
\<close>

definition dtype_clash :: "cell list \<Rightarrow> cell list \<Rightarrow> bool" where
  "dtype_clash ls rs \<longleftrightarrow>
     ls \<noteq> [] \<and> rs \<noteq> [] \<and>
     ((list_all is_num ls \<and> list_all is_str rs) \<or> (list_all is_str ls \<and> list_all is_num rs))"

definition rest_of :: "string list \<Rightarrow> string list \<Rightarrow> row \<Rightarrow> row" where
  "rest_of cols on r = map snd (filter (\<lambda>(c, v). c \<notin> set on) (zip cols r))"

text \<open>
  \<open>pd.merge(l, r, on=on, how="inner")\<close>: every key must be a column of both sides
  (\<open>KeyError\<close>) and a unique one (\<open>ValueError\<close>). The result has the columns of the left
  side and then the other columns of the right side (a name on both sides gets the suffixes
  \<open>_x\<close> and \<open>_y\<close>), and one row for every pair of a left and a right row with equal keys,
  in the order of the left side.
\<close>

definition merge_inner :: "dataframe \<Rightarrow> dataframe \<Rightarrow> string list \<Rightarrow> error + dataframe" where
  "merge_inner l r on =
     (if list_ex (\<lambda>k. k \<notin> set (columns l) \<or> k \<notin> set (columns r)) on then Inl KeyError
      else if list_ex (\<lambda>k. count_list (columns l) k \<noteq> 1 \<or> count_list (columns r) k \<noteq> 1) on
        then Inl ValueError
      else if list_ex (\<lambda>k. dtype_clash (column_values l k) (column_values r k)) on
        then Inl ValueError
      else
        (let lrest = filter (\<lambda>c. c \<notin> set on) (columns l);
             rrest = filter (\<lambda>c. c \<notin> set on) (columns r)
         in Inr \<lparr>columns =
                    map (\<lambda>c. if c \<notin> set on \<and> c \<in> set rrest then c @ ''_x'' else c) (columns l)
                    @ map (\<lambda>c. if c \<in> set lrest then c @ ''_y'' else c) rrest,
                  rows = concat (map (\<lambda>lr.
                           map (\<lambda>rr. lr @ rest_of (columns r) on rr)
                             (filter (\<lambda>rr. key_of (columns r) on rr = key_of (columns l) on lr)
                                (rows r)))
                         (rows l))\<rparr>))"

text \<open>\<open>Series.replace(0, pd.NA)\<close> on one value.\<close>

fun replace_zero :: "cell \<Rightarrow> cell" where
  "replace_zero (Num i) = (if i = 0 then NA else Num i)"
| "replace_zero (Flt q) = (if q = 0 then NA else Flt q)"
| "replace_zero c = c"

fun num_val :: "cell \<Rightarrow> rat" where
  "num_val (Num i) = of_int i"
| "num_val (Flt q) = q"
| "num_val _ = 0"

text \<open>
  \<open>teller / noemer.replace(0, pd.NA) * 100\<close> on one row: a missing divisor or dividend
  gives a missing value, a text raises \<open>TypeError\<close>.
\<close>

definition percentage :: "cell \<Rightarrow> cell \<Rightarrow> error + cell" where
  "percentage t n =
     (case replace_zero n of
        NA \<Rightarrow> Inr NA
      | Str _ \<Rightarrow> Inl TypeError
      | d \<Rightarrow> (case t of
                Str _ \<Rightarrow> Inl TypeError
              | NA \<Rightarrow> Inr NA
              | _ \<Rightarrow> Inr (Flt (num_val t / num_val d * 100))))"

text \<open>\<open>df[c] = values\<close>: a new column at the end, or the values of the column \<open>c\<close> replaced.\<close>

definition set_column :: "dataframe \<Rightarrow> string \<Rightarrow> cell list \<Rightarrow> dataframe" where
  "set_column df c vs =
     (if c \<in> set (columns df)
      then df\<lparr>rows := map (\<lambda>(r, v). map (\<lambda>(n, x). if n = c then v else x) (zip (columns df) r))
                          (zip (rows df) vs)\<rparr>
      else df\<lparr>columns := columns df @ [c], rows := map (\<lambda>(r, v). r @ [v]) (zip (rows df) vs)\<rparr>)"

subsection \<open>The function\<close>

text \<open>The two loops that build \<open>join_cols_teller\<close> and \<open>join_cols_noemer\<close>.\<close>

fun join_cols :: "mapping \<Rightarrow> dataframe \<Rightarrow> string list \<Rightarrow> string list" where
  "join_cols m df [] = []"
| "join_cols m df (lbl # lbls) =
     (case m lbl of
        None \<Rightarrow> join_cols m df lbls
      | Some kol \<Rightarrow>
          if kol \<noteq> [] \<and> kol \<in> set (columns df) then kol # join_cols m df lbls
          else join_cols m df lbls)"

text \<open>The \<open>zip\<close> of the four lists, keeping \<open>(generieke, kol_t, kol_n)\<close> with \<open>generieke = lbl_t\<close>.\<close>

definition generieke_labels ::
  "string list \<Rightarrow> string list \<Rightarrow> string list \<Rightarrow> string list \<Rightarrow> (string \<times> string \<times> string) list" where
  "generieke_labels join_labels_teller join_labels_noemer join_cols_teller join_cols_noemer =
     map (\<lambda>(lbl_t, lbl_n, kol_t, kol_n). (lbl_t, kol_t, kol_n))
       (zip join_labels_teller (zip join_labels_noemer (zip join_cols_teller join_cols_noemer)))"

text \<open>The two renaming loops, over the pairs \<open>(generieke, kol)\<close> of one side.\<close>

fun rename_keys :: "(string \<times> string) list \<Rightarrow> dataframe \<Rightarrow> dataframe" where
  "rename_keys [] g = g"
| "rename_keys ((generieke, kol) # rest) g =
     rename_keys rest (if kol \<in> set (columns g) then rename_column g kol generieke else g)"

text \<open>The new column \<open>doorstroompercentage\<close> of the joined frame.\<close>

definition add_percentage :: "dataframe \<Rightarrow> error + dataframe" where
  "add_percentage df_join =
     (if ''teller_doorstromers'' \<notin> set (columns df_join)
         \<or> ''noemer_gediplomeerden'' \<notin> set (columns df_join) then Inl KeyError
      else case collect (map (\<lambda>r. percentage (cell_at (columns df_join) ''teller_doorstromers'' r)
                                      (cell_at (columns df_join) ''noemer_gediplomeerden'' r))
                           (rows df_join)) of
        Inl e \<Rightarrow> Inl e
      | Inr ps \<Rightarrow> Inr (set_column df_join ''doorstroompercentage'' ps))"

text \<open>
  The result is \<open>Inl e\<close> when an exception \<open>e\<close> leaves the function, \<open>Inr None\<close> when it
  returns \<open>None\<close>, and \<open>Inr (Some df_join)\<close> when it returns the joined frame.
\<close>

definition combine_teller_noemer ::
  "dataframe \<Rightarrow> dataframe \<Rightarrow> mapping \<Rightarrow> mapping \<Rightarrow> string list \<Rightarrow> string list
   \<Rightarrow> error + dataframe option" where
  "combine_teller_noemer df_teller df_noemer map_teller map_noemer
       join_labels_teller join_labels_noemer =
     (case (map_teller ''aantal_ho_instromers'', map_noemer ''aantal_mbo_gediplomeerden'') of
        (Some col_teller, Some col_noemer) \<Rightarrow>
          if col_teller = [] \<or> col_noemer = [] then Inr None
          else if col_teller \<notin> set (columns df_teller) \<or> col_noemer \<notin> set (columns df_noemer)
            then Inr None
          else
            (let join_cols_teller = join_cols map_teller df_teller join_labels_teller;
                 join_cols_noemer = join_cols map_noemer df_noemer join_labels_noemer
             in if length join_cols_teller = 0
                   \<or> length join_cols_teller \<noteq> length join_cols_noemer then Inr None
                else
                  (case groupby_sum df_teller join_cols_teller col_teller ''teller_doorstromers'' of
                     Inl e \<Rightarrow> Inl e
                   | Inr t_grouped \<Rightarrow>
                  (case groupby_sum df_noemer join_cols_noemer col_noemer ''noemer_gediplomeerden'' of
                     Inl e \<Rightarrow> Inl e
                   | Inr n_grouped \<Rightarrow>
                  (let gl = generieke_labels join_labels_teller join_labels_noemer
                              join_cols_teller join_cols_noemer;
                       t_renamed = rename_keys (map (\<lambda>(g, kol_t, kol_n). (g, kol_t)) gl) t_grouped;
                       n_renamed = rename_keys (map (\<lambda>(g, kol_t, kol_n). (g, kol_n)) gl) n_grouped;
                       join_on = map fst gl
                   in case merge_inner t_renamed n_renamed join_on of
                        Inl e \<Rightarrow> Inl e
                      | Inr df_join \<Rightarrow>
                     (case add_percentage df_join of
                        Inl e \<Rightarrow> Inl e
                      | Inr res \<Rightarrow> Inr (Some res))))))
      | _ \<Rightarrow> Inr None)"

text \<open>
  The specification's \<open>combine\<close> takes one list of join labels; the application passes the
  selected labels for both sides.
\<close>

definition combine ::
  "dataframe \<Rightarrow> dataframe \<Rightarrow> mapping \<Rightarrow> mapping \<Rightarrow> string list \<Rightarrow> error + dataframe option" where
  "combine numerator denominator numerator_mapping denominator_mapping join_labels =
     combine_teller_noemer numerator denominator numerator_mapping denominator_mapping
       join_labels join_labels"

text \<open>The vocabulary the join labels are selected from.\<close>

definition mogelijke_join_labels :: "string list" where
  "mogelijke_join_labels =
     [''jaar'', ''instelling_mbo'', ''sector_mbo'', ''regio_mbo'', ''niveau_mbo'']"

section \<open>Grouped summaries of the joined frame\<close>

text \<open>
  The tabs regroup the joined frame by one of its key columns:
  \<open>df.groupby(keys)[["teller_doorstromers", "noemer_gediplomeerden"]].sum().reset_index()\<close>,
  and then recompute the percentage from the two sums as \<open>combine_teller_noemer\<close> does.
  The source groups by one column (\<open>jaar\<close>, \<open>sector_mbo\<close>, \<open>regio_mbo\<close> or
  \<open>instelling_mbo\<close>); \<open>keys\<close> is the list pandas takes there.
\<close>

definition per_groep :: "dataframe \<Rightarrow> string list \<Rightarrow> error + dataframe" where
  "per_groep df_kpi keys =
     (if list_ex (\<lambda>c. c \<notin> set (columns df_kpi))
           (keys @ [''teller_doorstromers'', ''noemer_gediplomeerden'']) then Inl KeyError
      else
        (case collect (map (\<lambda>k. sum_cells (group_values df_kpi keys ''teller_doorstromers'' k))
                         (group_keys df_kpi keys)) of
           Inl e \<Rightarrow> Inl e
         | Inr tellers \<Rightarrow>
        (case collect (map (\<lambda>k. sum_cells (group_values df_kpi keys ''noemer_gediplomeerden'' k))
                         (group_keys df_kpi keys)) of
           Inl e \<Rightarrow> Inl e
         | Inr noemers \<Rightarrow>
             if \<not> distinct (keys @ [''teller_doorstromers'', ''noemer_gediplomeerden''])
             then Inl ValueError
             else add_percentage
                    \<lparr>columns = keys @ [''teller_doorstromers'', ''noemer_gediplomeerden''],
                     rows = map (\<lambda>(k, t, n). k @ [t, n])
                              (zip (group_keys df_kpi keys) (zip tellers noemers))\<rparr>)))"

section \<open>Loading the two uploaded files\<close>

text \<open>
  \<open>pd.read_csv\<close> is the environment: a reader gives, for the number of reads the uploaded
  file has had before, a delimiter, an encoding and a parser engine, the frame parsed or
  the exception raised.
\<close>

datatype encoding = UTF8 | Latin1 | UTF16 | UTF16LE | UTF16BE

datatype engine = C_engine | Python_engine

datatype read_result = Parsed dataframe | UnicodeDecodeError | ParserError | OtherError

type_synonym reader = "nat \<Rightarrow> string \<Rightarrow> encoding \<Rightarrow> engine \<Rightarrow> read_result"

text \<open>
  What loading one side ends in: a frame, no frame with the message of \<open>st.error\<close> shown, or
  an exception that leaves the script.
\<close>

datatype load_result = Loaded dataframe | Reported | Raised

text \<open>
  The numerator: one \<open>try\<close> with two handlers. An exception raised inside a handler is
  not caught by the other handler.
\<close>

definition load_teller :: "reader \<Rightarrow> load_result" where
  "load_teller rd =
     (case rd 0 '','' UTF8 C_engine of
        Parsed df \<Rightarrow> Loaded df
      | UnicodeDecodeError \<Rightarrow>
          (case rd 1 '','' Latin1 C_engine of Parsed df \<Rightarrow> Loaded df | _ \<Rightarrow> Raised)
      | ParserError \<Rightarrow>
          (case rd 1 '';'' UTF8 Python_engine of Parsed df \<Rightarrow> Loaded df | _ \<Rightarrow> Raised)
      | OtherError \<Rightarrow> Raised)"

text \<open>
  The denominator: the two nested loops with the flag \<open>tried\<close>, as one loop over the
  combinations in the order the loops visit them. \<open>k\<close> counts the reads made so far.
\<close>

definition combinaties :: "(encoding \<times> string) list" where
  "combinaties =
     concat (map (\<lambda>enc. map (\<lambda>sep. (enc, sep)) ['','', '';'', [CHR 0x09]])
       [UTF8, Latin1, UTF16, UTF16LE, UTF16BE])"

fun try_combinaties :: "reader \<Rightarrow> nat \<Rightarrow> (encoding \<times> string) list \<Rightarrow> load_result" where
  "try_combinaties rd k [] = Reported"
| "try_combinaties rd k ((enc, sep) # rest) =
     (case rd k sep enc C_engine of
        Parsed df \<Rightarrow> Loaded df
      | UnicodeDecodeError \<Rightarrow> try_combinaties rd (Suc k) rest
      | ParserError \<Rightarrow> try_combinaties rd (Suc k) rest
      | OtherError \<Rightarrow> Raised)"

definition load_noemer :: "reader \<Rightarrow> load_result" where
  "load_noemer rd = try_combinaties rd 0 combinaties"

section \<open>Notions used to state the properties of the engine\<close>

text \<open>The column names after the renaming loop, as a function of the list of names.\<close>

definition rename_list :: "(string \<times> string) list \<Rightarrow> string list \<Rightarrow> string list" where
  "rename_list gl cols = fold (\<lambda>(g, kol) cs. map (\<lambda>c. if c = kol then g else c) cs) gl cols"

text \<open>The sum of the metric column in the group of a key, and the percentage of two sums.\<close>

definition group_total :: "dataframe \<Rightarrow> string list \<Rightarrow> string \<Rightarrow> row \<Rightarrow> cell" where
  "group_total df keys col k =
     (case sum_cells (group_values df keys col k) of Inr s \<Rightarrow> s | Inl e \<Rightarrow> NA)"

definition pct_cell :: "cell \<Rightarrow> cell \<Rightarrow> cell" where
  "pct_cell t n = (case percentage t n of Inr p \<Rightarrow> p | Inl e \<Rightarrow> NA)"

text \<open>The names of the join-key columns of a joined frame: all but the three measures.\<close>

definition measure_names :: "string list" where
  "measure_names = [''teller_doorstromers'', ''noemer_gediplomeerden'', ''doorstroompercentage'']"

definition join_key_names :: "dataframe \<Rightarrow> string list" where
  "join_key_names df_join = filter (\<lambda>c. c \<notin> set measure_names) (columns df_join)"

text \<open>
  A join-key selection is an ordered set of labels of the vocabulary.
\<close>

definition join_key_selection :: "string list \<Rightarrow> bool" where
  "join_key_selection ls \<longleftrightarrow> distinct ls \<and> list_all (\<lambda>l. l \<in> set mogelijke_join_labels) ls"

text \<open>A metric column holds counts: every value is an integer or missing.\<close>

fun is_count :: "cell \<Rightarrow> bool" where
  "is_count (Num _) = True"
| "is_count NA = True"
| "is_count _ = False"

fun int_val :: "cell \<Rightarrow> int" where
  "int_val (Num i) = i"
| "int_val _ = 0"

definition count_column :: "dataframe \<Rightarrow> string \<Rightarrow> bool" where
  "count_column df c = list_all is_count (column_values df c)"

text \<open>
  The rows of the inner join of the two aggregates: one row for every key of the numerator
  groups that is also a key of the denominator groups, with the two sums and the percentage.
\<close>

definition joined_rows ::
  "dataframe \<Rightarrow> dataframe \<Rightarrow> string list \<Rightarrow> string list \<Rightarrow> string \<Rightarrow> string \<Rightarrow> row list" where
  "joined_rows df_teller df_noemer join_cols_teller join_cols_noemer col_teller col_noemer =
     map (\<lambda>k. k @ [group_total df_teller join_cols_teller col_teller k,
                   group_total df_noemer join_cols_noemer col_noemer k,
                   pct_cell (group_total df_teller join_cols_teller col_teller k)
                     (group_total df_noemer join_cols_noemer col_noemer k)])
       (filter (\<lambda>k. k \<in> set (group_keys df_noemer join_cols_noemer))
          (group_keys df_teller join_cols_teller))"

text \<open>
  The rows of an input frame that survive the inner join: those whose key combination is the
  key of a row of the joined frame.
\<close>

definition surviving :: "dataframe \<Rightarrow> string list \<Rightarrow> dataframe \<Rightarrow> dataframe" where
  "surviving df key_cols df_join =
     df\<lparr>rows := filter (\<lambda>r. key_of (columns df) key_cols r
                              \<in> set (map (take (length key_cols)) (rows df_join)))
                    (rows df)\<rparr>"

text \<open>The naive average of the percentages of a list of rows that have one.\<close>

fun flt_val :: "cell \<Rightarrow> rat option" where
  "flt_val (Flt q) = Some q"
| "flt_val (Num i) = Some (of_int i)"
| "flt_val _ = None"

definition naive_average :: "cell list \<Rightarrow> rat option" where
  "naive_average ps =
     (let qs = List.map_filter flt_val ps
      in if qs = [] then None else Some (sum_list qs / of_nat (length qs)))"

text \<open>
  The calls on which every pandas operation of \<open>combine_teller_noemer\<close> goes through.
  One side is well mapped when its metric label resolves to a column of counts, every
  selected label resolves to a column, the resolved columns are distinct and none has
  the name of the measure, and no label is the name of a column that a later label resolves
  to (the renaming loop would rename two columns to one name).
\<close>

definition no_rename_collision :: "string list \<Rightarrow> string list \<Rightarrow> bool" where
  "no_rename_collision labels cols \<longleftrightarrow>
     list_all (\<lambda>j. list_all (\<lambda>i. labels ! i \<noteq> cols ! j) [0..<j]) [0..<length cols]"

definition well_mapped :: "dataframe \<Rightarrow> mapping \<Rightarrow> string \<Rightarrow> string list \<Rightarrow> string \<Rightarrow> bool" where
  "well_mapped df m metric_label labels measure_name \<longleftrightarrow>
     (case m metric_label of
        None \<Rightarrow> False
      | Some col \<Rightarrow> col \<noteq> [] \<and> col \<in> set (columns df) \<and> count_column df col)
     \<and> length (join_cols m df labels) = length labels
     \<and> distinct (join_cols m df labels @ [measure_name])
     \<and> no_rename_collision labels (join_cols m df labels)"

text \<open>
  The keys of the two aggregates are of one kind when no key column holds numbers on one
  side and texts on the other.
\<close>

definition keys_of_one_kind :: "dataframe \<Rightarrow> dataframe \<Rightarrow> string list \<Rightarrow> string list \<Rightarrow> bool" where
  "keys_of_one_kind df_teller df_noemer key_cols_teller key_cols_noemer \<longleftrightarrow>
     list_all (\<lambda>i. \<not> dtype_clash (map (\<lambda>k. k ! i) (group_keys df_teller key_cols_teller))
                       (map (\<lambda>k. k ! i) (group_keys df_noemer key_cols_noemer)))
       [0..<length key_cols_teller]"

text \<open>
  The values of a column are of one kind when they do not mix numbers with texts (missing
  values apart), as the data model has it.
\<close>

definition one_kind :: "cell list \<Rightarrow> bool" where
  "one_kind vs \<longleftrightarrow> \<not> (list_ex is_num vs \<and> list_ex is_str vs)"

section \<open>Example data\<close>

definition regio_frame :: dataframe where
  "regio_frame = \<lparr>columns = [''regio'', ''n''],
     rows = [[Str ''Noord'', Num 3], [NA, Num 5], [Str ''Zuid'', Num 7]]\<rparr>"

definition leeg_frame :: dataframe where
  "leeg_frame = \<lparr>columns = [''regio'', ''n''], rows = [[NA, Num 3], [NA, Num 5]]\<rparr>"



definition goed_frame :: dataframe where
  "goed_frame = \<lparr>columns = [''jaar'', ''aantal''], rows = [[Num 2021, Num 5]]\<rparr>"

text \<open>
  A reader for a Latin-1 file with semicolons between the columns and commas inside the
  values: it does not decode as UTF-8, and it does not tokenize on commas.
\<close>

definition rd_latin1_puntkomma :: reader where
  "rd_latin1_puntkomma k sep enc eng =
     (if enc = UTF8 then UnicodeDecodeError
      else if sep = '';'' then Parsed goed_frame
      else ParserError)"

text \<open>
  Frames with one key column each. In the first pair of mappings only \<open>sector_mbo\<close> is
  mapped, on both sides.
\<close>

definition sector_teller :: dataframe where
  "sector_teller = \<lparr>columns = [''Sector'', ''n_ho''],
     rows = [[Str ''Zorg'', Num 50], [Str ''Techniek'', Num 30]]\<rparr>"

definition sector_noemer :: dataframe where
  "sector_noemer = \<lparr>columns = [''sector'', ''n_mbo''],
     rows = [[Str ''Zorg'', Num 200]]\<rparr>"

definition sector_map_teller :: mapping where
  "sector_map_teller = [''sector_mbo'' \<mapsto> ''Sector'', ''aantal_ho_instromers'' \<mapsto> ''n_ho'']"

definition sector_map_noemer :: mapping where
  "sector_map_noemer =
     [''sector_mbo'' \<mapsto> ''sector'', ''aantal_mbo_gediplomeerden'' \<mapsto> ''n_mbo'']"

text \<open>
  The numerator maps only \<open>instelling_mbo\<close>, the denominator maps only \<open>regio_mbo\<close>.
\<close>

definition scheef_teller :: dataframe where
  "scheef_teller = \<lparr>columns = [''Instelling'', ''n_ho''],
     rows = [[Str ''Utrecht'', Num 50]]\<rparr>"

definition scheef_noemer :: dataframe where
  "scheef_noemer = \<lparr>columns = [''Regio'', ''n_mbo''],
     rows = [[Str ''Utrecht'', Num 200]]\<rparr>"

definition scheef_map_teller :: mapping where
  "scheef_map_teller =
     [''instelling_mbo'' \<mapsto> ''Instelling'', ''aantal_ho_instromers'' \<mapsto> ''n_ho'']"

definition scheef_map_noemer :: mapping where
  "scheef_map_noemer =
     [''regio_mbo'' \<mapsto> ''Regio'', ''aantal_mbo_gediplomeerden'' \<mapsto> ''n_mbo'']"

text \<open>
  Two key columns on each side, all mapped; in \<open>dubbel_map_teller\<close> the labels \<open>jaar\<close> and
  \<open>sector_mbo\<close> both point to the column \<open>Jaar\<close>.
\<close>

definition jaar_teller :: dataframe where
  "jaar_teller = \<lparr>columns = [''Jaar'', ''Sector'', ''n_ho''],
     rows = [[Num 2021, Str ''Zorg'', Num 20], [Num 2021, Str ''Zorg'', Num 30],
             [Num 2020, Str ''Techniek'', Num 5], [Num 2021, Str ''Techniek'', Num 7]]\<rparr>"

definition jaar_noemer :: dataframe where
  "jaar_noemer = \<lparr>columns = [''jaar'', ''sector'', ''n_mbo''],
     rows = [[Num 2021, Str ''Zorg'', Num 200], [Num 2021, Str ''Techniek'', Num 0],
             [Num 2019, Str ''Techniek'', Num 5]]\<rparr>"

definition jaar_map_teller :: mapping where
  "jaar_map_teller =
     [''jaar'' \<mapsto> ''Jaar'', ''sector_mbo'' \<mapsto> ''Sector'', ''aantal_ho_instromers'' \<mapsto> ''n_ho'']"

definition jaar_map_noemer :: mapping where
  "jaar_map_noemer =
     [''jaar'' \<mapsto> ''jaar'', ''sector_mbo'' \<mapsto> ''sector'',
      ''aantal_mbo_gediplomeerden'' \<mapsto> ''n_mbo'']"

definition dubbel_map_teller :: mapping where
  "dubbel_map_teller =
     [''jaar'' \<mapsto> ''Jaar'', ''sector_mbo'' \<mapsto> ''Jaar'', ''aantal_ho_instromers'' \<mapsto> ''n_ho'']"

text \<open>A denominator whose years are texts.\<close>

definition tekst_noemer :: dataframe where
  "tekst_noemer = \<lparr>columns = [''jaar'', ''sector'', ''n_mbo''],
     rows = [[Str ''2021/2022'', Str ''Zorg'', Num 200]]\<rparr>"

text \<open>The joined frames of the examples.\<close>

definition sector_join :: dataframe where
  "sector_join = \<lparr>columns = [''jaar'', ''teller_doorstromers'', ''noemer_gediplomeerden'',
                             ''doorstroompercentage''],
     rows = [[Str ''Zorg'', Num 50, Num 200, Flt 25]]\<rparr>"

definition scheef_join :: dataframe where
  "scheef_join = \<lparr>columns = [''instelling_mbo'', ''teller_doorstromers'',
                             ''noemer_gediplomeerden'', ''doorstroompercentage''],
     rows = [[Str ''Utrecht'', Num 50, Num 200, Flt 25]]\<rparr>"

definition jaar_join :: dataframe where
  "jaar_join = \<lparr>columns = [''jaar'', ''sector_mbo'', ''teller_doorstromers'',
                           ''noemer_gediplomeerden'', ''doorstroompercentage''],
     rows = [[Num 2021, Str ''Techniek'', Num 7, Num 0, NA],
             [Num 2021, Str ''Zorg'', Num 50, Num 200, Flt 25]]\<rparr>"

text \<open>A numerator and a denominator with no sector in common.\<close>

definition zorg_teller :: dataframe where
  "zorg_teller = \<lparr>columns = [''Sector'', ''n_ho''], rows = [[Str ''Zorg'', Num 50]]\<rparr>"

definition techniek_noemer :: dataframe where
  "techniek_noemer = \<lparr>columns = [''sector'', ''n_mbo''], rows = [[Str ''Techniek'', Num 200]]\<rparr>"

definition leeg_join :: dataframe where
  "leeg_join = \<lparr>columns = [''sector_mbo'', ''teller_doorstromers'', ''noemer_gediplomeerden'',
                           ''doorstroompercentage''],
     rows = []\<rparr>"

text \<open>
  A numerator with a sector that the denominator does not have in the same year.
\<close>

definition gat_teller :: dataframe where
  "gat_teller = \<lparr>columns = [''Jaar'', ''Sector'', ''n_ho''],
     rows = [[Num 2021, Str ''Zorg'', Num 50], [Num 2021, Str ''Techniek'', Num 30]]\<rparr>"

definition gat_noemer :: dataframe where
  "gat_noemer = \<lparr>columns = [''jaar'', ''sector'', ''n_mbo''],
     rows = [[Num 2021, Str ''Zorg'', Num 200]]\<rparr>"

definition gat_join :: dataframe where
  "gat_join = \<lparr>columns = [''jaar'', ''sector_mbo'', ''teller_doorstromers'',
                          ''noemer_gediplomeerden'', ''doorstroompercentage''],
     rows = [[Num 2021, Str ''Zorg'', Num 50, Num 200, Flt 25]]\<rparr>"

definition gat_per_jaar :: dataframe where
  "gat_per_jaar = \<lparr>columns = [''jaar'', ''teller_doorstromers'', ''noemer_gediplomeerden'',
                              ''doorstroompercentage''],
     rows = [[Num 2021, Num 50, Num 200, Flt 25]]\<rparr>"

definition gat_rerun :: dataframe where
  "gat_rerun = \<lparr>columns = [''jaar'', ''teller_doorstromers'', ''noemer_gediplomeerden'',
                           ''doorstroompercentage''],
     rows = [[Num 2021, Num 80, Num 200, Flt 40]]\<rparr>"

text \<open>Two sectors of one year with different sizes.\<close>

definition twee_teller :: dataframe where
  "twee_teller = \<lparr>columns = [''Jaar'', ''Sector'', ''n_ho''],
     rows = [[Num 2021, Str ''Zorg'', Num 50], [Num 2021, Str ''Techniek'', Num 30]]\<rparr>"

definition twee_noemer :: dataframe where
  "twee_noemer = \<lparr>columns = [''jaar'', ''sector'', ''n_mbo''],
     rows = [[Num 2021, Str ''Zorg'', Num 200], [Num 2021, Str ''Techniek'', Num 40]]\<rparr>"

definition twee_join :: dataframe where
  "twee_join = \<lparr>columns = [''jaar'', ''sector_mbo'', ''teller_doorstromers'',
                           ''noemer_gediplomeerden'', ''doorstroompercentage''],
     rows = [[Num 2021, Str ''Techniek'', Num 30, Num 40, Flt 75],
             [Num 2021, Str ''Zorg'', Num 50, Num 200, Flt 25]]\<rparr>"

definition twee_per_jaar :: dataframe where
  "twee_per_jaar = \<lparr>columns = [''jaar'', ''teller_doorstromers'', ''noemer_gediplomeerden'',
                               ''doorstroompercentage''],
     rows = [[Num 2021, Num 80, Num 240, Flt (100 / 3)]]\<rparr>"


definition gemengd_leeg_frame :: dataframe where
  "gemengd_leeg_frame = \<lparr>columns = [''code'', ''n''],
     rows = [[Num 1, Num 3], [NA, Num 4], [Str ''a'', Num 5]]\<rparr>"

section \<open>Properties of the Column Mapper\<close>

text \<open>
  Lower-casing is what makes the matching of the code case-insensitive: two characters
  have the same lower-case form exactly when they are the same letter.
\<close>

lemma char_lower_of_char:
  "(of_char (char_lower c) :: nat) = (if capital c then of_char c + 32 else of_char c)"
proof -
  have r: "(CHR ''A'' \<le> c \<and> c \<le> CHR ''Z'') = capital c"
    by (simp add: less_eq_char_def capital_def)
  have "(of_char c :: nat) < 256" by simp
  then show ?thesis
    unfolding char_lower_def r by (auto simp: capital_def)
qed

lemma same_letter_iff: "same_letter c d \<longleftrightarrow> char_lower c = char_lower d"
proof -
  have "char_lower c = char_lower d \<longleftrightarrow>
        (of_char (char_lower c) :: nat) = of_char (char_lower d)"
    by simp
  also have "\<dots> \<longleftrightarrow> same_letter c d"
    unfolding char_lower_of_char same_letter_def
    by (auto simp: capital_def)
  finally show ?thesis by simp
qed

lemma starts_with_ci_prefix:
  "starts_with_ci name word \<longleftrightarrow> prefix (lower word) (lower name)"
  by (induction name word rule: starts_with_ci.induct)
     (simp_all add: lower_def same_letter_iff eq_commute)

lemma contains_ci_sublist:
  "contains_ci name word \<longleftrightarrow> sublist (lower word) (lower name)"
proof (induction name)
  case Nil
  show ?case by (simp add: lower_def)
next
  case (Cons c name)
  have "sublist (lower word) (lower (c # name))
        \<longleftrightarrow> prefix (lower word) (lower (c # name)) \<or> sublist (lower word) (lower name)"
    by (simp add: lower_def sublist_Cons_right)
  with Cons show ?case by (simp add: starts_with_ci_prefix)
qed

lemma lower_keywords:
  "lower ''jaar'' = ''jaar''" "lower ''peil'' = ''peil''" "lower ''brin'' = ''brin''"
  "lower ''sector'' = ''sector''" "lower ''sectorkamer'' = ''sectorkamer''"
  "lower ''domein'' = ''domein''" "lower ''regio'' = ''regio''" "lower ''aantal'' = ''aantal''"
  "lower ''stud'' = ''stud''" "lower ''count'' = ''count''"
  by code_simp+

lemma if_chain6:
  "(if a then s else if b then s else if c then s else if d then s else if e then s
    else if f then s else r) = (if a \<or> b \<or> c \<or> d \<or> e \<or> f then s else r)"
  by simp

lemma suggest_default_step:
  "suggest_default label (c # cols) =
     (if rule_matches label c then Some c else suggest_default label cols)"
  unfolding suggest_default.simps Let_def rule_matches_def
    contains_ci_sublist lower_keywords str_in_def endswith_def startswith_def
  by (rule if_chain6)

lemma suggest_default_find:
  "suggest_default label cols = List.find (rule_matches label) cols"
  by (induction cols) (simp_all only: suggest_default.simps(1) suggest_default_step find.simps)

text \<open>
  C9. \<open>suggest_default\<close> is a function of the label and the column list alone (the same
  inputs give the same result, whatever was called before). Its result is the first column,
  in the order of the list, that one of the rules matches: the label occurs in the column
  name case-insensitively, or a keyword of the label's rule does. It is nothing exactly
  when no column matches a rule. The rules are worded without the lower-casing of the
  code: capitals and small letters are the same letter.
\<close>

theorem suggest_default_first_match:
  "suggest_default label cols = List.find (rule_matches label) cols
   \<and> (suggest_default label cols = None \<longleftrightarrow> \<not> list_ex (rule_matches label) cols)
   \<and> (\<forall>c. suggest_default label cols = Some c \<longleftrightarrow>
         (\<exists>i<length cols. cols ! i = c \<and> rule_matches label c
            \<and> (\<forall>j<i. \<not> rule_matches label (cols ! j))))"
  unfolding suggest_default_find
  by (auto simp: find_None_iff find_Some_iff list_ex_iff)

theorem suggest_default_first_match_witness:
  "suggest_default ''jaar'' [''BRIN'', ''PEILDATUM'', ''JAAR''] = Some ''PEILDATUM''
   \<and> List.find (rule_matches ''jaar'') [''BRIN'', ''PEILDATUM'', ''JAAR''] = Some ''PEILDATUM''
   \<and> suggest_default ''Jaar'' [''BRIN'', ''PEILDATUM'', ''JAAR''] = Some ''JAAR''
   \<and> List.find (rule_matches ''Jaar'') [''BRIN'', ''PEILDATUM'', ''JAAR''] = Some ''JAAR''
   \<and> rule_matches ''jaar'' ''PEILDATUM''
   \<and> \<not> rule_matches ''Jaar'' ''PEILDATUM''
   \<and> rule_matches ''Jaar'' ''JAAR''
   \<and> \<not> rule_matches ''jaar'' ''BRIN''
   \<and> suggest_default ''regio_mbo'' [''BRIN'', ''Peiljaar''] = None
   \<and> \<not> list_ex (rule_matches ''regio_mbo'') [''BRIN'', ''Peiljaar'']"
proof -
  have e: "suggest_default ''jaar'' [''BRIN'', ''PEILDATUM'', ''JAAR''] = Some ''PEILDATUM''"
    "suggest_default ''Jaar'' [''BRIN'', ''PEILDATUM'', ''JAAR''] = Some ''JAAR''"
    by code_simp+
  have n: "suggest_default ''regio_mbo'' [''BRIN'', ''Peiljaar''] = None"
    by code_simp
  have m: "rule_matches ''jaar'' ''PEILDATUM''" "\<not> rule_matches ''Jaar'' ''PEILDATUM''"
    "rule_matches ''Jaar'' ''JAAR''" "\<not> rule_matches ''jaar'' ''BRIN''"
    by code_simp+
  have 1: "List.find (rule_matches ''jaar'') [''BRIN'', ''PEILDATUM'', ''JAAR''] = Some ''PEILDATUM''"
    using suggest_default_first_match [of "''jaar''" "[''BRIN'', ''PEILDATUM'', ''JAAR'']",
        THEN conjunct1]
    unfolding e by (rule sym)
  have 2: "List.find (rule_matches ''Jaar'') [''BRIN'', ''PEILDATUM'', ''JAAR''] = Some ''JAAR''"
    using suggest_default_first_match [of "''Jaar''" "[''BRIN'', ''PEILDATUM'', ''JAAR'']",
        THEN conjunct1]
    unfolding e by (rule sym)
  have 3: "\<not> list_ex (rule_matches ''regio_mbo'') [''BRIN'', ''Peiljaar'']"
    by (rule iffD1 [OF suggest_default_first_match [of "''regio_mbo''" "[''BRIN'', ''Peiljaar'']",
            THEN conjunct2, THEN conjunct1] n])
  show ?thesis by (intro conjI) (rule e n m 1 2 3)+
qed

section \<open>Properties of the Categorical Filter\<close>

lemma py_sorted_set: "py_sorted xs = Inr ys \<Longrightarrow> set ys = set xs"
  by (auto simp: py_sorted_def split: if_splits)

lemma unieke_set:
  "unieke df k = Inr opties \<Longrightarrow> set opties = set (column_values df k) - {NA}"
  by (auto simp: unieke_def dest!: py_sorted_set)

text \<open>The options exist exactly when the column does not mix numbers with texts.\<close>

lemma unieke_one_kind:
  "one_kind (column_values df k) \<Longrightarrow> \<exists>opties. unieke df k = Inr opties"
  by (auto simp: one_kind_def unieke_def py_sorted_def list_ex_iff)

lemma unieke_mixed:
  "\<not> one_kind (column_values df k) \<Longrightarrow> unieke df k = Inl TypeError"
  by (auto simp: one_kind_def unieke_def py_sorted_def list_ex_iff)




text \<open>
  C10, as stated, fails on a column whose values are all missing: the full set of distinct
  non-missing values is then empty, an empty selection means no restriction, and the frame
  comes back unchanged. It fails too on a column that holds a missing value beside a number
  and a text: sorting the options raises \<open>TypeError\<close> and no frame comes back.
\<close>

theorem apply_filter_all_missing_counterexample:
  "''regio'' \<in> set (columns leeg_frame)
   \<and> NA \<in> set (column_values leeg_frame ''regio'')
   \<and> unieke leeg_frame ''regio'' = Inr []
   \<and> apply_filter leeg_frame ''regio'' default_selectie = Inr leeg_frame
   \<and> ''code'' \<in> set (columns gemengd_leeg_frame)
   \<and> NA \<in> set (column_values gemengd_leeg_frame ''code'')
   \<and> apply_filter gemengd_leeg_frame ''code'' default_selectie = Inl TypeError"
  by (simp add: leeg_frame_def gemengd_leeg_frame_def column_values_def cell_at_def unieke_def
      py_sorted_def apply_filter_def default_selectie_def)

text \<open>
  C10, amended. When the column holds a missing value and also a value that is not missing,
  and its values are of one kind (it does not mix numbers with texts), \<open>apply_filter\<close>
  with the default selection (all the options) keeps exactly the rows whose value in the
  column is not missing: the result has fewer rows than the frame and is not the frame.
\<close>

theorem apply_filter_default_drops_missing:
  assumes "kolomnaam \<in> set (columns df)"
    and "NA \<in> set (column_values df kolomnaam)"
    and "\<exists>v \<in> set (column_values df kolomnaam). v \<noteq> NA"
    and "one_kind (column_values df kolomnaam)"
  shows "\<exists>df'. apply_filter df kolomnaam default_selectie = Inr df'
           \<and> rows df' = filter (\<lambda>r. cell_at (columns df) kolomnaam r \<noteq> NA) (rows df)
           \<and> NA \<notin> set (column_values df' kolomnaam)
           \<and> length (rows df') < length (rows df)
           \<and> df' \<noteq> df"
proof -
  from assms(4) obtain opties where u: "unieke df kolomnaam = Inr opties"
    using unieke_one_kind by blast
  have s: "set opties = set (column_values df kolomnaam) - {NA}"
    using u by (rule unieke_set)
  from assms(3) obtain v where v: "v \<in> set (column_values df kolomnaam)" "v \<noteq> NA"
    by blast
  then have "v \<in> set opties" unfolding s by simp
  then have ne: "opties \<noteq> []" by (cases opties) simp_all
  have f: "filter (\<lambda>r. cell_at (columns df) kolomnaam r \<in> set opties) (rows df)
         = filter (\<lambda>r. cell_at (columns df) kolomnaam r \<noteq> NA) (rows df)"
  proof (rule filter_cong [OF refl])
    fix r assume "r \<in> set (rows df)"
    then have "cell_at (columns df) kolomnaam r \<in> set (column_values df kolomnaam)"
      by (simp add: column_values_def)
    then show "(cell_at (columns df) kolomnaam r \<in> set opties)
             = (cell_at (columns df) kolomnaam r \<noteq> NA)"
      unfolding s by simp
  qed
  from assms(2) obtain r where r: "r \<in> set (rows df)" "cell_at (columns df) kolomnaam r = NA"
    by (auto simp: column_values_def)
  have lt: "length (filter (\<lambda>r. cell_at (columns df) kolomnaam r \<noteq> NA) (rows df))
            < length (rows df)"
    by (rule length_filter_less [OF r(1)]) (simp add: r(2))
  let ?df' = "isin_rows df kolomnaam opties"
  have a: "apply_filter df kolomnaam default_selectie = Inr ?df'"
    using assms(1) u ne by (simp add: apply_filter_def default_selectie_def)
  have b: "rows ?df' = filter (\<lambda>r. cell_at (columns df) kolomnaam r \<noteq> NA) (rows df)"
    by (simp add: isin_rows_def f)
  have c: "NA \<notin> set (column_values ?df' kolomnaam)"
    unfolding column_values_def isin_rows_def s by auto
  from b lt have d: "length (rows ?df') < length (rows df)" by simp
  have e: "?df' \<noteq> df"
  proof
    assume "?df' = df"
    then have "rows ?df' = rows df" by (rule arg_cong)
    with d show False by simp
  qed
  from a b c d e show ?thesis by blast
qed

theorem apply_filter_default_drops_missing_witness:
  "\<exists>df'. apply_filter regio_frame ''regio'' default_selectie = Inr df'
      \<and> rows df' = [[Str ''Noord'', Num 3], [Str ''Zuid'', Num 7]]
      \<and> NA \<notin> set (column_values df' ''regio'')
      \<and> length (rows df') < length (rows regio_frame)
      \<and> df' \<noteq> regio_frame"
proof -
  have k: "one_kind (column_values regio_frame ''regio'')"
    by code_simp
  have c: "''regio'' \<in> set (columns regio_frame)"
    "NA \<in> set (column_values regio_frame ''regio'')"
    "\<exists>v \<in> set (column_values regio_frame ''regio''). v \<noteq> NA"
    by (simp_all add: regio_frame_def column_values_def cell_at_def)
  have f: "filter (\<lambda>r. cell_at (columns regio_frame) ''regio'' r \<noteq> NA) (rows regio_frame)
           = [[Str ''Noord'', Num 3], [Str ''Zuid'', Num 7]]"
    by (simp add: regio_frame_def cell_at_def)
  from apply_filter_default_drops_missing [OF c k] show ?thesis
    unfolding f .
qed

section \<open>Properties of the loaders\<close>

text \<open>
  C7. The denominator is loaded by trying the encodings crossed with the delimiters in a
  fixed order. The numerator is not: after a decoding failure it tries Latin-1 with a comma
  only, and what that read raises leaves the script. On a Latin-1 file with semicolons the
  denominator loader gives the frame and the numerator loader raises.
\<close>

theorem load_teller_not_the_cross:
  "load_teller rd_latin1_puntkomma = Raised
   \<and> load_noemer rd_latin1_puntkomma = Loaded goed_frame"
  by code_simp

section \<open>Properties of the Join and Aggregation Engine\<close>

subsection \<open>The steps of the function\<close>

lemma collect_map_Inr: "collect (map Inr vs) = Inr vs"
  by (induction vs) simp_all

lemma collect_InrD: "collect xs = Inr vs \<Longrightarrow> xs = map Inr vs"
  by (induction xs arbitrary: vs) (auto split: sum.splits)

lemma collect_Inr_iff: "collect xs = Inr vs \<longleftrightarrow> xs = map Inr vs"
  using collect_map_Inr collect_InrD by metis

lemma map_rename_id: "b \<notin> set xs \<Longrightarrow> map (\<lambda>c. if c = b then a else c) xs = xs"
  by (induction xs) auto

lemma groupby_sum_InrD:
  assumes "groupby_sum df keys col nm = Inr g"
  shows "distinct (keys @ [nm])"
    and "columns g = keys @ [nm]"
    and "\<exists>totals. map (\<lambda>k. sum_cells (group_values df keys col k)) (group_keys df keys) = map Inr totals
           \<and> rows g = map (\<lambda>(k, s). k @ [s]) (zip (group_keys df keys) totals)"
  using assms
  by (auto simp: groupby_sum_def collect_Inr_iff split: sum.splits if_splits)

lemma rename_keys_columns: "columns (rename_keys gl g) = rename_list gl (columns g)"
proof (induction gl arbitrary: g)
  case Nil
  show ?case by (simp add: rename_list_def)
next
  case (Cons p gl)
  obtain a b where p: "p = (a, b)" by (cases p)
  show ?case
    using Cons.IH by (auto simp: p rename_list_def rename_column_def map_rename_id)
qed

lemma rename_keys_rows: "rows (rename_keys gl g) = rows g"
  by (induction gl arbitrary: g) (auto simp: rename_column_def)

lemma rename_list_Cons:
  "rename_list ((g, kol) # gl) cols = rename_list gl (map (\<lambda>c. if c = kol then g else c) cols)"
  by (simp add: rename_list_def)

lemma rename_list_is_map: "\<exists>f. \<forall>cols. rename_list gl cols = map f cols"
proof (induction gl)
  case Nil
  show ?case by (intro exI [of _ id]) (simp add: rename_list_def)
next
  case (Cons p gl)
  obtain a b where p: "p = (a, b)" by (cases p)
  from Cons obtain f where f: "\<forall>cols. rename_list gl cols = map f cols" by blast
  show ?case
    by (intro exI [of _ "f \<circ> (\<lambda>c. if c = b then a else c)"]) (simp add: p rename_list_Cons f)
qed

lemma rename_list_distinctD: "distinct (rename_list gl cols) \<Longrightarrow> distinct cols"
  using rename_list_is_map [of gl] by (metis distinct_map)

lemma rename_list_distinct_form:
  "distinct (rename_list gl (pre @ map snd gl @ post))
   \<Longrightarrow> rename_list gl (pre @ map snd gl @ post) = pre @ map fst gl @ post"
proof (induction gl arbitrary: pre)
  case Nil
  show ?case by (simp add: rename_list_def)
next
  case (Cons p gl)
  obtain a b where p: "p = (a, b)" by (cases p)
  let ?cols = "pre @ map snd (p # gl) @ post"
  from Cons.prems have d0: "distinct ?cols" by (rule rename_list_distinctD)
  then have nb: "b \<notin> set pre" "b \<notin> set (map snd gl)" "b \<notin> set post"
    by (auto simp: p)
  have m: "map (\<lambda>c. if c = b then a else c) ?cols = (pre @ [a]) @ map snd gl @ post"
    using map_rename_id [OF nb(1), of a] map_rename_id [OF nb(2), of a]
      map_rename_id [OF nb(3), of a] by (simp add: p)
  have "rename_list (p # gl) ?cols = rename_list gl ((pre @ [a]) @ map snd gl @ post)"
    unfolding p rename_list_Cons m [unfolded p] ..
  moreover from Cons.prems this have "distinct (rename_list gl ((pre @ [a]) @ map snd gl @ post))"
    by simp
  ultimately show ?case
    using Cons.IH [of "pre @ [a]"] by (simp add: p)
qed

lemma count_once_distinct:
  assumes "distinct ls" and "length cs = Suc (length ls)"
    and "\<forall>l \<in> set ls. count_list cs l = 1"
  shows "distinct cs"
proof -
  have sub: "mset ls \<subseteq># mset cs"
  proof (rule mset_subset_eqI)
    fix a show "count (mset ls) a \<le> count (mset cs) a"
      using assms(1,3) by (cases "a \<in> set ls") (auto simp: count_mset distinct_count_atmost_1 count_list_0_iff)
  qed
  then obtain r where r: "mset cs = mset ls + r" by (metis subset_mset.le_iff_add)
  then have "size (mset cs) = size (mset ls) + size r" by simp
  with assms(2) have "size r = 1" by simp
  then obtain x where x: "r = {#x#}" by (metis size_1_singleton_mset)
  have "x \<notin> set ls"
  proof
    assume "x \<in> set ls"
    with assms(3) have "count (mset cs) x = 1" by (simp add: count_mset)
    moreover from \<open>x \<in> set ls\<close> assms(1) have "count (mset ls) x = 1"
      by (simp add: distinct_count_atmost_1)
    ultimately show False using r x by simp
  qed
  then have "distinct (x # ls)" using assms(1) by simp
  moreover have "mset cs = mset (x # ls)" using r x by simp
  ultimately show ?thesis by (metis mset_eq_imp_distinct_iff)
qed

lemma join_cols_length: "length (join_cols m df ls) \<le> length ls"
  by (induction ls) (auto split: option.splits)

lemma join_cols_full:
  "length (join_cols m df ls) = length ls \<Longrightarrow>
   map m ls = map Some (join_cols m df ls)
   \<and> list_all (\<lambda>kol. kol \<noteq> [] \<and> kol \<in> set (columns df)) (join_cols m df ls)"
proof (induction ls)
  case Nil
  show ?case by simp
next
  case (Cons l ls)
  have le: "length (join_cols m df ls) \<le> length ls" by (rule join_cols_length)
  from Cons.prems le show ?case
    using Cons.IH by (auto split: option.splits if_splits)
qed

lemma generieke_labels_zip:
  "length jt = length jn \<Longrightarrow> length jt \<le> length ls \<Longrightarrow>
   generieke_labels ls ls jt jn = zip (take (length jt) ls) (zip jt jn)"
  by (auto simp: list_eq_iff_nth_eq generieke_labels_def)

lemma zip3_projections:
  "length a = length c \<Longrightarrow> length c = length d \<Longrightarrow>
   map fst (zip a (zip c d)) = a
   \<and> map (\<lambda>(g, kol_t, kol_n). (g, kol_t)) (zip a (zip c d)) = zip a c
   \<and> map (\<lambda>(g, kol_t, kol_n). (g, kol_n)) (zip a (zip c d)) = zip a d"
  by (auto simp: list_eq_iff_nth_eq)

lemma cell_at_append_right:
  "c \<notin> set ls \<Longrightarrow> length ks = length ls \<Longrightarrow>
   cell_at (ls @ cs) c (ks @ vs) = cell_at cs c vs"
  by (simp add: cell_at_def map_add_def map_of_zip_is_None [THEN iffD2] split: option.splits)

lemma cell_at_nth:
  "distinct ls \<Longrightarrow> length ks = length ls \<Longrightarrow> i < length ls \<Longrightarrow>
   cell_at (ls @ cs) (ls ! i) (ks @ vs) = ks ! i"
  by (simp add: cell_at_def map_add_def map_of_zip_nth split: option.splits)

lemma key_of_append:
  assumes "distinct ls" and "length ks = length ls"
  shows "key_of (ls @ cs) ls (ks @ vs) = ks"
  unfolding key_of_def using assms
  by (auto simp: list_eq_iff_nth_eq cell_at_nth)

lemma rest_of_append:
  assumes "set cs \<inter> set ls = {}" and "length ks = length ls" and "length vs = length cs"
  shows "rest_of (ls @ cs) ls (ks @ vs) = vs"
proof -
  have 1: "filter (\<lambda>(c, v). c \<notin> set ls) (zip ls ks) = []"
    by (auto simp: filter_empty_conv dest: set_zip_leftD)
  have 2: "filter (\<lambda>(c, v). c \<notin> set ls) (zip cs vs) = zip cs vs"
    using assms(1) by (auto simp: filter_id_conv dest: set_zip_leftD)
  show ?thesis
    using assms(2,3) by (simp add: rest_of_def 1 2)
qed

lemma group_keys_set:
  "set (group_keys df keys) = {k \<in> key_of (columns df) keys ` set (rows df). NA \<notin> set k}"
  by (auto simp: group_keys_def)

lemma group_keys_length: "k \<in> set (group_keys df keys) \<Longrightarrow> length k = length keys"
  by (auto simp: group_keys_set key_of_def)

lemma group_keys_distinct: "distinct (group_keys df keys)"
  by (simp add: group_keys_def)

lemma concat_map_if:
  "concat (map (\<lambda>x. if P x then [h x] else []) xs) = map h (filter P xs)"
  by (induction xs) simp_all

lemma filter_eq_distinct:
  "distinct ys \<Longrightarrow> filter (\<lambda>y. y = x) ys = (if x \<in> set ys then [x] else [])"
  by (induction ys) auto

lemma merge_grouped_rows:
  assumes d: "distinct labs" and t: "t \<notin> set labs" and n: "n \<notin> set labs"
    and lt: "\<forall>k \<in> set ks_t. length k = length labs"
    and ln: "\<forall>k \<in> set ks_n. length k = length labs"
    and dn: "distinct ks_n"
  shows "concat (map (\<lambda>lr.
            map (\<lambda>rr. lr @ rest_of (labs @ [n]) labs rr)
              (filter (\<lambda>rr. key_of (labs @ [n]) labs rr = key_of (labs @ [t]) labs lr)
                 (map (\<lambda>k. k @ [nn k]) ks_n)))
          (map (\<lambda>k. k @ [tt k]) ks_t))
       = map (\<lambda>k. k @ [tt k, nn k]) (filter (\<lambda>k. k \<in> set ks_n) ks_t)"
proof -
  have inner: "map (\<lambda>rr. (k @ [tt k]) @ rest_of (labs @ [n]) labs rr)
              (filter (\<lambda>rr. key_of (labs @ [n]) labs rr = key_of (labs @ [t]) labs (k @ [tt k]))
                 (map (\<lambda>k. k @ [nn k]) ks_n))
             = (if k \<in> set ks_n then [k @ [tt k, nn k]] else [])"
    if k: "k \<in> set ks_t" for k
  proof -
    have kk: "key_of (labs @ [t]) labs (k @ [tt k]) = k"
      using d lt k by (simp add: key_of_append)
    have f: "filter (\<lambda>rr. key_of (labs @ [n]) labs rr = k) (map (\<lambda>k. k @ [nn k]) ks_n)
           = map (\<lambda>k. k @ [nn k]) (filter (\<lambda>k'. k' = k) ks_n)"
      unfolding filter_map comp_def
      by (rule arg_cong [where f = "map _"], rule filter_cong [OF refl])
         (use d ln in \<open>simp add: key_of_append\<close>)
    have r: "rest_of (labs @ [n]) labs (k @ [nn k]) = [nn k]" if "k \<in> set ks_n"
      using n ln that by (simp add: rest_of_append)
    show ?thesis
      unfolding kk f filter_eq_distinct [OF dn] using r by simp
  qed
  have "concat (map (\<lambda>lr.
            map (\<lambda>rr. lr @ rest_of (labs @ [n]) labs rr)
              (filter (\<lambda>rr. key_of (labs @ [n]) labs rr = key_of (labs @ [t]) labs lr)
                 (map (\<lambda>k. k @ [nn k]) ks_n)))
          (map (\<lambda>k. k @ [tt k]) ks_t))
      = concat (map (\<lambda>k. if k \<in> set ks_n then [k @ [tt k, nn k]] else []) ks_t)"
    unfolding map_map comp_def
    by (rule arg_cong [where f = concat], rule map_cong [OF refl], rule inner)
  then show ?thesis by (simp add: concat_map_if)
qed

lemma merge_inner_InrD:
  assumes "merge_inner l r on = Inr dj"
  shows "\<forall>k \<in> set on. count_list (columns l) k = 1 \<and> count_list (columns r) k = 1"
    and "\<forall>k \<in> set on. \<not> dtype_clash (column_values l k) (column_values r k)"
    and "rows dj = concat (map (\<lambda>lr.
                           map (\<lambda>rr. lr @ rest_of (columns r) on rr)
                             (filter (\<lambda>rr. key_of (columns r) on rr = key_of (columns l) on lr)
                                (rows r)))
                         (rows l))"
    and "columns dj =
           map (\<lambda>c. if c \<notin> set on \<and> c \<in> set (filter (\<lambda>c. c \<notin> set on) (columns r))
                     then c @ ''_x'' else c) (columns l)
           @ map (\<lambda>c. if c \<in> set (filter (\<lambda>c. c \<notin> set on) (columns l)) then c @ ''_y'' else c)
               (filter (\<lambda>c. c \<notin> set on) (columns r))"
  using assms
  by (auto simp: merge_inner_def Let_def list_ex_iff split: if_splits)

lemma combine_SomeD:
  assumes "combine_teller_noemer df_teller df_noemer map_teller map_noemer lbls_t lbls_n = Inr (Some res)"
  shows "\<exists>col_teller col_noemer t_grouped n_grouped df_join.
     map_teller ''aantal_ho_instromers'' = Some col_teller
     \<and> map_noemer ''aantal_mbo_gediplomeerden'' = Some col_noemer
     \<and> col_teller \<noteq> [] \<and> col_noemer \<noteq> []
     \<and> col_teller \<in> set (columns df_teller) \<and> col_noemer \<in> set (columns df_noemer)
     \<and> join_cols map_teller df_teller lbls_t \<noteq> []
     \<and> length (join_cols map_teller df_teller lbls_t) = length (join_cols map_noemer df_noemer lbls_n)
     \<and> groupby_sum df_teller (join_cols map_teller df_teller lbls_t) col_teller
          ''teller_doorstromers'' = Inr t_grouped
     \<and> groupby_sum df_noemer (join_cols map_noemer df_noemer lbls_n) col_noemer
          ''noemer_gediplomeerden'' = Inr n_grouped
     \<and> merge_inner
          (rename_keys (map (\<lambda>(g, kol_t, kol_n). (g, kol_t))
             (generieke_labels lbls_t lbls_n (join_cols map_teller df_teller lbls_t)
                (join_cols map_noemer df_noemer lbls_n))) t_grouped)
          (rename_keys (map (\<lambda>(g, kol_t, kol_n). (g, kol_n))
             (generieke_labels lbls_t lbls_n (join_cols map_teller df_teller lbls_t)
                (join_cols map_noemer df_noemer lbls_n))) n_grouped)
          (map fst (generieke_labels lbls_t lbls_n (join_cols map_teller df_teller lbls_t)
                (join_cols map_noemer df_noemer lbls_n))) = Inr df_join
     \<and> add_percentage df_join = Inr res"
  using assms unfolding combine_teller_noemer_def Let_def
  by (simp split: option.splits sum.splits if_splits prod.splits)

lemma combine_None_iff:
  "combine_teller_noemer df_teller df_noemer map_teller map_noemer lbls_t lbls_n = Inr None \<longleftrightarrow>
     (case map_teller ''aantal_ho_instromers'' of None \<Rightarrow> True
      | Some col_teller \<Rightarrow> col_teller = [] \<or> col_teller \<notin> set (columns df_teller))
     \<or> (case map_noemer ''aantal_mbo_gediplomeerden'' of None \<Rightarrow> True
      | Some col_noemer \<Rightarrow> col_noemer = [] \<or> col_noemer \<notin> set (columns df_noemer))
     \<or> join_cols map_teller df_teller lbls_t = []
     \<or> length (join_cols map_teller df_teller lbls_t) \<noteq> length (join_cols map_noemer df_noemer lbls_n)"
  unfolding combine_teller_noemer_def Let_def
  by (simp split: option.splits sum.splits if_splits prod.splits)

lemma zip_totals:
  "map f xs = map Inr ts \<Longrightarrow>
   map (\<lambda>(k, s). k @ [s]) (zip xs ts) = map (\<lambda>k. k @ [case f k of Inr s \<Rightarrow> s | Inl e \<Rightarrow> NA]) xs"
proof (induction xs arbitrary: ts)
  case Nil
  then show ?case by simp
next
  case (Cons x xs)
  then obtain t ts' where ts: "ts = t # ts'" by (cases ts) auto
  with Cons.prems have "f x = Inr t" "map f xs = map Inr ts'" by auto
  with Cons.IH [of ts'] show ?case by (simp add: ts)
qed

lemma groupby_sum_rows:
  assumes "groupby_sum df keys col nm = Inr g"
  shows "rows g = map (\<lambda>k. k @ [group_total df keys col k]) (group_keys df keys)"
proof -
  from groupby_sum_InrD(3) [OF assms] obtain totals where
    t: "map (\<lambda>k. sum_cells (group_values df keys col k)) (group_keys df keys) = map Inr totals"
    and r: "rows g = map (\<lambda>(k, s). k @ [s]) (zip (group_keys df keys) totals)"
    by blast
  show ?thesis
    unfolding r zip_totals [OF t] group_total_def ..
qed

lemma groupby_sum_totals:
  assumes "groupby_sum df keys col nm = Inr g" and "k \<in> set (group_keys df keys)"
  shows "sum_cells (group_values df keys col k) = Inr (group_total df keys col k)"
proof -
  from groupby_sum_InrD(3) [OF assms(1)] obtain totals where
    t: "map (\<lambda>k. sum_cells (group_values df keys col k)) (group_keys df keys) = map Inr totals"
    by blast
  from assms(2) obtain i where i: "i < length (group_keys df keys)" "group_keys df keys ! i = k"
    by (auto simp: in_set_conv_nth)
  from t have "length totals = length (group_keys df keys)"
    by (metis length_map)
  with t i have "sum_cells (group_values df keys col k) = Inr (totals ! i)"
    by (metis nth_map)
  then show ?thesis by (simp add: group_total_def)
qed

lemma add_percentage_form:
  assumes ok: "add_percentage dj = Inr res"
    and c: "columns dj = labs @ [''teller_doorstromers'', ''noemer_gediplomeerden'']"
    and r: "rows dj = map (\<lambda>k. k @ [tt k, nn k]) ks"
    and l: "\<forall>k \<in> set ks. length k = length labs"
    and nt: "''teller_doorstromers'' \<notin> set labs"
    and nn: "''noemer_gediplomeerden'' \<notin> set labs"
    and np: "''doorstroompercentage'' \<notin> set labs"
  shows "columns res = labs @ measure_names"
    and "rows res = map (\<lambda>k. k @ [tt k, nn k, pct_cell (tt k) (nn k)]) ks"
    and "\<forall>k \<in> set ks. percentage (tt k) (nn k) = Inr (pct_cell (tt k) (nn k))"
proof -
  have ct: "cell_at (columns dj) ''teller_doorstromers'' (k @ [tt k, nn k]) = tt k"
    and cn: "cell_at (columns dj) ''noemer_gediplomeerden'' (k @ [tt k, nn k]) = nn k"
    if "k \<in> set ks" for k
    using that l nt nn unfolding c
    by (simp_all add: cell_at_append_right) (simp_all add: cell_at_def)
  have m: "map (\<lambda>r. percentage (cell_at (columns dj) ''teller_doorstromers'' r)
                   (cell_at (columns dj) ''noemer_gediplomeerden'' r)) (rows dj)
           = map (\<lambda>k. percentage (tt k) (nn k)) ks"
    unfolding r map_map comp_def
    by (rule map_cong [OF refl]) (simp add: ct cn)
  from ok obtain ps where ps: "map (\<lambda>k. percentage (tt k) (nn k)) ks = map Inr ps"
    and res: "res = set_column dj ''doorstroompercentage'' ps"
    unfolding add_percentage_def m
    by (auto simp: collect_Inr_iff split: if_splits sum.splits)
  have pin: "''doorstroompercentage'' \<notin> set (columns dj)"
    using np by (simp add: c)
  from ps have len: "length ps = length ks" by (metis length_map)
  have pk: "percentage (tt k) (nn k) = Inr (pct_cell (tt k) (nn k))" if "k \<in> set ks" for k
  proof -
    from that obtain i where i: "i < length ks" "ks ! i = k" by (auto simp: in_set_conv_nth)
    with ps len have "percentage (tt k) (nn k) = Inr (ps ! i)" by (metis nth_map)
    then show ?thesis by (simp add: pct_cell_def)
  qed
  then show "\<forall>k \<in> set ks. percentage (tt k) (nn k) = Inr (pct_cell (tt k) (nn k))" by blast
  show "columns res = labs @ measure_names"
    using pin by (simp add: res set_column_def c measure_names_def)
  have "map (\<lambda>(r, v). r @ [v]) (zip (map (\<lambda>k. k @ [tt k, nn k]) ks) ps)
        = map (\<lambda>k. k @ [tt k, nn k, pct_cell (tt k) (nn k)]) ks"
    using len pk ps
    by (auto simp: list_eq_iff_nth_eq pct_cell_def)
  then show "rows res = map (\<lambda>k. k @ [tt k, nn k, pct_cell (tt k) (nn k)]) ks"
    using pin by (simp add: res set_column_def r)
qed

lemma rename_list_length: "length (rename_list gl cols) = length cols"
  using rename_list_is_map [of gl] by (metis length_map)

lemma measure_names_not_labels:
  "list_all (\<lambda>m. m \<notin> set mogelijke_join_labels) measure_names"
  by (simp add: mogelijke_join_labels_def measure_names_def)

lemma selection_not_measure:
  assumes "join_key_selection ls" and "l \<in> set ls"
  shows "l \<notin> set measure_names"
proof
  assume m: "l \<in> set measure_names"
  from assms have "l \<in> set mogelijke_join_labels"
    by (simp add: join_key_selection_def list_all_iff)
  moreover from m measure_names_not_labels have "l \<notin> set mogelijke_join_labels"
    by (simp add: list_all_iff)
  ultimately show False by simp
qed

lemma renamed_columns:
  assumes d: "distinct labs" and len: "length jc = length labs"
    and cnt: "\<forall>l \<in> set labs. count_list (rename_list (zip labs jc) (jc @ [m])) l = 1"
  shows "rename_list (zip labs jc) (jc @ [m]) = labs @ [m]"
proof -
  let ?c = "rename_list (zip labs jc) (jc @ [m])"
  have dc: "distinct ?c"
    by (rule count_once_distinct [OF d _ cnt]) (simp add: rename_list_length len)
  have s: "map snd (zip labs jc) = jc" "map fst (zip labs jc) = labs"
    using len by simp_all
  from rename_list_distinct_form [of "zip labs jc" "[]" "[m]"] dc
  show ?thesis by (simp add: s)
qed

lemma filter_not_in_self: "filter (\<lambda>c. c \<notin> set labs) labs = []"
  by (simp add: filter_empty_conv)

lemma merged_columns:
  assumes "t \<notin> set labs" and "n \<notin> set labs" and "t \<noteq> n"
  shows "map (\<lambda>c. if c \<notin> set labs \<and> c \<in> set (filter (\<lambda>c. c \<notin> set labs) (labs @ [n]))
                 then c @ sx else c) (labs @ [t])
         @ map (\<lambda>c. if c \<in> set (filter (\<lambda>c. c \<notin> set labs) (labs @ [t])) then c @ sy else c)
             (filter (\<lambda>c. c \<notin> set labs) (labs @ [n]))
         = labs @ [t, n]"
proof -
  have fn: "filter (\<lambda>c. c \<notin> set labs) (labs @ [n]) = [n]"
    and ft: "filter (\<lambda>c. c \<notin> set labs) (labs @ [t]) = [t]"
    using assms(1,2) by (simp_all add: filter_not_in_self)
  have "map (\<lambda>c. if c \<notin> set labs \<and> c \<in> set [n] then c @ sx else c) labs = labs"
    by (rule map_idI) simp
  then show ?thesis
    unfolding fn ft using assms by simp
qed

lemma combine_success_form:
  assumes ok: "combine df_teller df_noemer map_teller map_noemer labels = Inr (Some res)"
    and sel: "join_key_selection labels"
    and jt: "jt = join_cols map_teller df_teller labels"
    and jn: "jn = join_cols map_noemer df_noemer labels"
  shows "\<exists>col_teller col_noemer.
      map_teller ''aantal_ho_instromers'' = Some col_teller
    \<and> map_noemer ''aantal_mbo_gediplomeerden'' = Some col_noemer
    \<and> jt \<noteq> [] \<and> length jt = length jn
    \<and> columns res = take (length jt) labels @ measure_names
    \<and> rows res = joined_rows df_teller df_noemer jt jn col_teller col_noemer
    \<and> (\<forall>k \<in> set (group_keys df_teller jt).
          sum_cells (group_values df_teller jt col_teller k)
            = Inr (group_total df_teller jt col_teller k))
    \<and> (\<forall>k \<in> set (group_keys df_noemer jn).
          sum_cells (group_values df_noemer jn col_noemer k)
            = Inr (group_total df_noemer jn col_noemer k))
    \<and> (\<forall>k \<in> set (group_keys df_teller jt) \<inter> set (group_keys df_noemer jn).
          percentage (group_total df_teller jt col_teller k) (group_total df_noemer jn col_noemer k)
            = Inr (pct_cell (group_total df_teller jt col_teller k)
                     (group_total df_noemer jn col_noemer k)))
    \<and> (\<forall>i < length jt. \<not> dtype_clash
          (map (\<lambda>k. k ! i) (group_keys df_teller jt)) (map (\<lambda>k. k ! i) (group_keys df_noemer jn)))"
proof -
  from combine_SomeD [OF ok [unfolded combine_def], folded jt jn]
  obtain ct cn tg ng dj where
    mt: "map_teller ''aantal_ho_instromers'' = Some ct"
    and mn: "map_noemer ''aantal_mbo_gediplomeerden'' = Some cn"
    and ne: "jt \<noteq> []" and len: "length jt = length jn"
    and gt: "groupby_sum df_teller jt ct ''teller_doorstromers'' = Inr tg"
    and gn: "groupby_sum df_noemer jn cn ''noemer_gediplomeerden'' = Inr ng"
    and mg: "merge_inner
          (rename_keys (map (\<lambda>(g, kol_t, kol_n). (g, kol_t)) (generieke_labels labels labels jt jn)) tg)
          (rename_keys (map (\<lambda>(g, kol_t, kol_n). (g, kol_n)) (generieke_labels labels labels jt jn)) ng)
          (map fst (generieke_labels labels labels jt jn)) = Inr dj"
    and ap: "add_percentage dj = Inr res"
    by (elim exE conjE) (rule that; assumption)
  define labs where "labs = take (length jt) labels"
  have le: "length jt \<le> length labels" unfolding jt by (rule join_cols_length)
  then have ll: "length labs = length jt" by (simp add: labs_def)
  have dl: "distinct labs" using sel by (simp add: labs_def join_key_selection_def)
  have sub: "set labs \<subseteq> set labels" unfolding labs_def by (rule set_take_subset)
  have gl: "generieke_labels labels labels jt jn = zip labs (zip jt jn)"
    unfolding labs_def by (rule generieke_labels_zip [OF len le])
  note pr = zip3_projections [of labs jt jn, OF ll len]
  define tr where "tr = rename_keys (zip labs jt) tg"
  define nr where "nr = rename_keys (zip labs jn) ng"
  from mg have mg': "merge_inner tr nr labs = Inr dj"
    unfolding gl tr_def nr_def by (simp add: pr)
  have ctg: "columns tg = jt @ [''teller_doorstromers'']"
    and cng: "columns ng = jn @ [''noemer_gediplomeerden'']"
    by (rule groupby_sum_InrD(2) [OF gt], rule groupby_sum_InrD(2) [OF gn])
  have ctr0: "columns tr = rename_list (zip labs jt) (jt @ [''teller_doorstromers''])"
    and cnr0: "columns nr = rename_list (zip labs jn) (jn @ [''noemer_gediplomeerden''])"
    by (simp_all add: tr_def nr_def rename_keys_columns ctg cng)
  note cnt = merge_inner_InrD(1) [OF mg']
  have ctr: "columns tr = labs @ [''teller_doorstromers'']"
    unfolding ctr0 using cnt by (intro renamed_columns [OF dl]) (simp_all add: ll ctr0)
  have cnr: "columns nr = labs @ [''noemer_gediplomeerden'']"
    unfolding cnr0 using cnt by (intro renamed_columns [OF dl]) (simp_all add: ll len cnr0)
  have nm: "\<forall>l \<in> set labs. l \<notin> set measure_names"
    using selection_not_measure [OF sel] sub by blast
  have nt: "''teller_doorstromers'' \<notin> set labs"
    and nn: "''noemer_gediplomeerden'' \<notin> set labs"
    and np: "''doorstroompercentage'' \<notin> set labs"
    using nm by (force simp: measure_names_def)+
  let ?tt = "group_total df_teller jt ct" and ?nn = "group_total df_noemer jn cn"
  have rtr: "rows tr = map (\<lambda>k. k @ [?tt k]) (group_keys df_teller jt)"
    by (simp add: tr_def rename_keys_rows groupby_sum_rows [OF gt])
  have rnr: "rows nr = map (\<lambda>k. k @ [?nn k]) (group_keys df_noemer jn)"
    by (simp add: nr_def rename_keys_rows groupby_sum_rows [OF gn])
  have lkt: "\<forall>k \<in> set (group_keys df_teller jt). length k = length labs"
    by (simp add: group_keys_length ll)
  have lkn: "\<forall>k \<in> set (group_keys df_noemer jn). length k = length labs"
    by (simp add: group_keys_length ll len)
  let ?ks = "filter (\<lambda>k. k \<in> set (group_keys df_noemer jn)) (group_keys df_teller jt)"
  have rdj: "rows dj = map (\<lambda>k. k @ [?tt k, ?nn k]) ?ks"
    unfolding merge_inner_InrD(3) [OF mg'] ctr cnr rtr rnr
    by (rule merge_grouped_rows [OF dl nt nn lkt lkn group_keys_distinct])
  have cdj: "columns dj = labs @ [''teller_doorstromers'', ''noemer_gediplomeerden'']"
    unfolding merge_inner_InrD(4) [OF mg'] ctr cnr
    by (rule merged_columns [OF nt nn]) simp
  have lks: "\<forall>k \<in> set ?ks. length k = length labs" using lkt by simp
  note form = add_percentage_form [OF ap cdj rdj lks nt nn np]
  have clash: "\<not> dtype_clash (map (\<lambda>k. k ! i) (group_keys df_teller jt))
                 (map (\<lambda>k. k ! i) (group_keys df_noemer jn))" if i: "i < length jt" for i
  proof -
    have li: "labs ! i \<in> set labs" using i ll by simp
    have a: "column_values tr (labs ! i) = map (\<lambda>k. k ! i) (group_keys df_teller jt)"
      unfolding column_values_def ctr rtr map_map comp_def
      by (rule map_cong [OF refl]) (use dl lkt i ll in \<open>simp add: cell_at_nth\<close>)
    have b: "column_values nr (labs ! i) = map (\<lambda>k. k ! i) (group_keys df_noemer jn)"
      unfolding column_values_def cnr rnr map_map comp_def
      by (rule map_cong [OF refl]) (use dl lkn i ll in \<open>simp add: cell_at_nth\<close>)
    from merge_inner_InrD(2) [OF mg'] li
    have "\<not> dtype_clash (column_values tr (labs ! i)) (column_values nr (labs ! i))" by blast
    then show ?thesis unfolding a b .
  qed
  have f1: "columns res = take (length jt) labels @ measure_names"
    using form(1) by (simp only: labs_def)
  have f2: "rows res = joined_rows df_teller df_noemer jt jn ct cn"
    using form(2) by (simp only: joined_rows_def)
  have f3: "\<forall>k \<in> set (group_keys df_teller jt).
          sum_cells (group_values df_teller jt ct k) = Inr (?tt k)"
    using groupby_sum_totals [OF gt] by blast
  have f4: "\<forall>k \<in> set (group_keys df_noemer jn).
          sum_cells (group_values df_noemer jn cn k) = Inr (?nn k)"
    using groupby_sum_totals [OF gn] by blast
  have f5: "\<forall>k \<in> set (group_keys df_teller jt) \<inter> set (group_keys df_noemer jn).
          percentage (?tt k) (?nn k) = Inr (pct_cell (?tt k) (?nn k))"
  proof
    fix k assume "k \<in> set (group_keys df_teller jt) \<inter> set (group_keys df_noemer jn)"
    then have "k \<in> set ?ks" by simp
    with form(3) show "percentage (?tt k) (?nn k) = Inr (pct_cell (?tt k) (?nn k))" by blast
  qed
  have f6: "\<forall>i < length jt. \<not> dtype_clash
          (map (\<lambda>k. k ! i) (group_keys df_teller jt)) (map (\<lambda>k. k ! i) (group_keys df_noemer jn))"
    using clash by blast
  show ?thesis
    by (intro exI [of _ ct] exI [of _ cn] conjI mt mn ne len f1 f2 f3 f4 f5 f6)
qed

lemma sum_from_nums:
  "list_all (\<lambda>v. is_count v \<and> v \<noteq> NA) xs \<Longrightarrow>
   sum_from (Num a) xs = Inr (Num (a + sum_list (map int_val xs)))"
proof (induction xs arbitrary: a)
  case Nil
  show ?case by simp
next
  case (Cons x xs)
  from Cons.prems obtain i where x: "x = Num i" by (cases x) auto
  from Cons.prems have "list_all (\<lambda>v. is_count v \<and> v \<noteq> NA) xs" by simp
  from Cons.IH [OF this, of "a + i"] show ?case by (simp add: x add.assoc)
qed

lemma sum_list_int_val_filter:
  "sum_list (map int_val (filter (\<lambda>v. v \<noteq> NA) vs)) = sum_list (map int_val vs)"
  by (induction vs) auto

lemma sum_cells_counts:
  assumes "list_all is_count vs"
  shows "sum_cells vs = Inr (Num (sum_list (map int_val vs)))"
proof -
  let ?f = "filter (\<lambda>v. v \<noteq> NA) vs"
  have all: "list_all (\<lambda>v. is_count v \<and> v \<noteq> NA) ?f"
    using assms by (simp add: list_all_iff)
  show ?thesis
  proof (cases ?f)
    case Nil
    with sum_list_int_val_filter [of vs] show ?thesis by (simp add: sum_cells_def)
  next
    case (Cons x xs)
    with all obtain i where x: "x = Num i" by (cases x) auto
    from all Cons have "list_all (\<lambda>v. is_count v \<and> v \<noteq> NA) xs" by simp
    from sum_from_nums [OF this, of i] sum_list_int_val_filter [of vs] Cons x
    show ?thesis by (simp add: sum_cells_def)
  qed
qed

lemma group_values_counts:
  "count_column df col \<Longrightarrow> list_all is_count (group_values df keys col k)"
  by (auto simp: count_column_def group_values_def column_values_def list_all_iff)

lemma group_total_counts:
  "count_column df col \<Longrightarrow>
   group_total df keys col k = Num (sum_list (map int_val (group_values df keys col k)))"
  by (simp add: group_total_def sum_cells_counts [OF group_values_counts])

lemma percentage_nums:
  "percentage (Num a) (Num b) =
     Inr (if b = 0 then NA else Flt (100 * of_int a / of_int b))"
  by (simp add: percentage_def)

lemma pct_cell_nums:
  "pct_cell (Num a) (Num b) = (if b = 0 then NA else Flt (100 * of_int a / of_int b))"
  by (simp add: pct_cell_def percentage_nums)

lemma joined_rows_keys:
  "map (take (length jt)) (joined_rows df_teller df_noemer jt jn ct cn)
   = filter (\<lambda>k. k \<in> set (group_keys df_noemer jn)) (group_keys df_teller jt)"
proof -
  have "map (take (length jt) \<circ> (\<lambda>k. k @ [group_total df_teller jt ct k,
            group_total df_noemer jn cn k,
            pct_cell (group_total df_teller jt ct k) (group_total df_noemer jn cn k)]))
          (filter (\<lambda>k. k \<in> set (group_keys df_noemer jn)) (group_keys df_teller jt))
        = filter (\<lambda>k. k \<in> set (group_keys df_noemer jn)) (group_keys df_teller jt)"
    by (rule map_idI) (auto dest: group_keys_length)
  then show ?thesis by (simp add: joined_rows_def)
qed

lemma rename_list_forward:
  assumes "distinct (pre @ map snd gl @ post)"
    and "distinct (map fst gl)"
    and "set (map fst gl) \<inter> (set pre \<union> set post) = {}"
    and "\<forall>i j. i < j \<longrightarrow> j < length gl \<longrightarrow> fst (gl ! i) \<noteq> snd (gl ! j)"
  shows "rename_list gl (pre @ map snd gl @ post) = pre @ map fst gl @ post"
  using assms
proof (induction gl arbitrary: pre)
  case Nil
  show ?case by (simp add: rename_list_def)
next
  case (Cons p gl)
  obtain a b where p: "p = (a, b)" by (cases p)
  from Cons.prems(1) have nb: "b \<notin> set pre" "b \<notin> set (map snd gl)" "b \<notin> set post"
    by (auto simp: p)
  have m: "map (\<lambda>c. if c = b then a else c) (pre @ map snd (p # gl) @ post)
           = (pre @ [a]) @ map snd gl @ post"
    using map_rename_id [OF nb(1), of a] map_rename_id [OF nb(2), of a]
      map_rename_id [OF nb(3), of a] by (simp add: p)
  have later: "a \<noteq> snd (gl ! j)" if "j < length gl" for j
    using Cons.prems(4) [rule_format, of 0 "Suc j"] that by (simp add: p)
  have na: "a \<notin> set (map snd gl)"
  proof
    assume "a \<in> set (map snd gl)"
    then obtain j where "j < length gl" "snd (gl ! j) = a"
      by (auto simp: in_set_conv_nth)
    with later show False by blast
  qed
  from Cons.prems(3) have nap: "a \<notin> set pre" "a \<notin> set post" by (auto simp: p)
  have d1: "distinct ((pre @ [a]) @ map snd gl @ post)"
    using Cons.prems(1) na nap by (auto simp: p)
  have d2: "distinct (map fst gl)" using Cons.prems(2) by simp
  have d3: "set (map fst gl) \<inter> (set (pre @ [a]) \<union> set post) = {}"
    using Cons.prems(2,3) by (auto simp: p)
  have d4: "\<forall>i j. i < j \<longrightarrow> j < length gl \<longrightarrow> fst (gl ! i) \<noteq> snd (gl ! j)"
  proof (intro allI impI)
    fix i j assume "i < j" "j < length gl"
    with Cons.prems(4) [rule_format, of "Suc i" "Suc j"] show "fst (gl ! i) \<noteq> snd (gl ! j)"
      by simp
  qed
  have "rename_list (p # gl) (pre @ map snd (p # gl) @ post)
        = rename_list gl ((pre @ [a]) @ map snd gl @ post)"
    unfolding p rename_list_Cons m [unfolded p] ..
  also have "\<dots> = (pre @ [a]) @ map fst gl @ post"
    by (rule Cons.IH [OF d1 d2 d3 d4])
  finally show ?case by (simp add: p)
qed

lemma renamed_columns_forward:
  assumes "distinct (jc @ [m])" and "distinct labs" and "m \<notin> set labs"
    and "length jc = length labs"
    and "\<forall>i j. i < j \<longrightarrow> j < length labs \<longrightarrow> labs ! i \<noteq> jc ! j"
  shows "rename_list (zip labs jc) (jc @ [m]) = labs @ [m]"
proof -
  have s: "map snd (zip labs jc) = jc" "map fst (zip labs jc) = labs"
    using assms(4) by simp_all
  have "rename_list (zip labs jc) ([] @ map snd (zip labs jc) @ [m])
        = [] @ map fst (zip labs jc) @ [m]"
  proof (rule rename_list_forward)
    show "distinct ([] @ map snd (zip labs jc) @ [m])" using assms(1) by (simp add: s)
    show "distinct (map fst (zip labs jc))" using assms(2) by (simp add: s)
    show "set (map fst (zip labs jc)) \<inter> (set [] \<union> set [m]) = {}"
      using assms(3) by (simp add: s)
    show "\<forall>i j. i < j \<longrightarrow> j < length (zip labs jc)
            \<longrightarrow> fst (zip labs jc ! i) \<noteq> snd (zip labs jc ! j)"
      using assms(4,5) by simp
  qed
  then show ?thesis by (simp add: s)
qed

lemma groupby_sum_counts:
  assumes "count_column df col" and "distinct (keys @ [nm])"
  shows "groupby_sum df keys col nm
         = Inr \<lparr>columns = keys @ [nm],
                 rows = map (\<lambda>k. k @ [Num (sum_list (map int_val (group_values df keys col k)))])
                          (group_keys df keys)\<rparr>"
proof -
  have "map (\<lambda>k. sum_cells (group_values df keys col k)) (group_keys df keys)
        = map Inr (map (\<lambda>k. Num (sum_list (map int_val (group_values df keys col k))))
                     (group_keys df keys))"
    by (simp add: sum_cells_counts [OF group_values_counts [OF assms(1)]])
  then have c: "collect (map (\<lambda>k. sum_cells (group_values df keys col k)) (group_keys df keys))
        = Inr (map (\<lambda>k. Num (sum_list (map int_val (group_values df keys col k))))
                     (group_keys df keys))"
    by (simp only: collect_map_Inr)
  have z: "map (\<lambda>(k, s). k @ [s]) (zip xs (map f xs)) = map (\<lambda>k. k @ [f k]) xs" for xs :: "row list" and f
    by (induction xs) simp_all
  show ?thesis
    unfolding groupby_sum_def c using assms(2) by (simp add: z)
qed

lemma count_list_distinct: "distinct xs \<Longrightarrow> x \<in> set xs \<Longrightarrow> count_list xs x = 1"
  by (induction xs) auto

lemma no_rename_collisionD:
  "no_rename_collision labels cols \<Longrightarrow> i < j \<Longrightarrow> j < length cols \<Longrightarrow> labels ! i \<noteq> cols ! j"
  by (simp add: no_rename_collision_def list_all_iff)

lemma add_percentage_counts:
  assumes c: "columns dj = labs @ [''teller_doorstromers'', ''noemer_gediplomeerden'']"
    and r: "rows dj = map (\<lambda>k. k @ [Num (a k), Num (b k)]) ks"
    and l: "\<forall>k \<in> set ks. length k = length labs"
    and nt: "''teller_doorstromers'' \<notin> set labs"
    and nn: "''noemer_gediplomeerden'' \<notin> set labs"
  shows "\<exists>res. add_percentage dj = Inr res"
proof -
  have ct: "cell_at (columns dj) ''teller_doorstromers'' (k @ [Num (a k), Num (b k)]) = Num (a k)"
    and cn: "cell_at (columns dj) ''noemer_gediplomeerden'' (k @ [Num (a k), Num (b k)]) = Num (b k)"
    if "k \<in> set ks" for k
    using that l nt nn unfolding c
    by (simp_all add: cell_at_append_right) (simp_all add: cell_at_def)
  have "map (\<lambda>r. percentage (cell_at (columns dj) ''teller_doorstromers'' r)
                   (cell_at (columns dj) ''noemer_gediplomeerden'' r)) (rows dj)
        = map (\<lambda>k. percentage (Num (a k)) (Num (b k))) ks"
    unfolding r map_map comp_def by (rule map_cong [OF refl]) (simp add: ct cn)
  also have "\<dots> = map Inr (map (\<lambda>k. if b k = 0 then NA
                                       else Flt (100 * of_int (a k) / of_int (b k))) ks)"
    by (simp add: percentage_nums)
  finally have "collect (map (\<lambda>r. percentage (cell_at (columns dj) ''teller_doorstromers'' r)
                   (cell_at (columns dj) ''noemer_gediplomeerden'' r)) (rows dj))
        = Inr (map (\<lambda>k. if b k = 0 then NA else Flt (100 * of_int (a k) / of_int (b k))) ks)"
    by (simp only: collect_map_Inr)
  then show ?thesis
    unfolding add_percentage_def by (simp add: c)
qed

lemma combine_returns_table:
  assumes sel: "join_key_selection labels" and ne: "labels \<noteq> []"
    and wt: "well_mapped df_teller map_teller ''aantal_ho_instromers'' labels ''teller_doorstromers''"
    and wn: "well_mapped df_noemer map_noemer ''aantal_mbo_gediplomeerden'' labels
               ''noemer_gediplomeerden''"
    and kind: "keys_of_one_kind df_teller df_noemer (join_cols map_teller df_teller labels)
                 (join_cols map_noemer df_noemer labels)"
  shows "\<exists>df_join. combine df_teller df_noemer map_teller map_noemer labels = Inr (Some df_join)"
proof -
  define jt where "jt = join_cols map_teller df_teller labels"
  define jn where "jn = join_cols map_noemer df_noemer labels"
  from wt obtain ct where ct: "map_teller ''aantal_ho_instromers'' = Some ct" "ct \<noteq> []"
    "ct \<in> set (columns df_teller)" "count_column df_teller ct"
    by (auto simp: well_mapped_def split: option.splits)
  from wn obtain cn where cn: "map_noemer ''aantal_mbo_gediplomeerden'' = Some cn" "cn \<noteq> []"
    "cn \<in> set (columns df_noemer)" "count_column df_noemer cn"
    by (auto simp: well_mapped_def split: option.splits)
  from wt have lt: "length jt = length labels"
    and dt: "distinct (jt @ [''teller_doorstromers''])"
    and rt: "no_rename_collision labels jt"
    by (simp_all add: well_mapped_def jt_def)
  from wn have ln: "length jn = length labels"
    and dn: "distinct (jn @ [''noemer_gediplomeerden''])"
    and rn: "no_rename_collision labels jn"
    by (simp_all add: well_mapped_def jn_def)
  have jne: "jt \<noteq> []" using lt ne by auto
  have len: "length jt = length jn" using lt ln by simp
  have dl: "distinct labels" using sel by (simp add: join_key_selection_def)
  have nm: "\<forall>l \<in> set labels. l \<notin> set measure_names"
    using selection_not_measure [OF sel] by blast
  have nt: "''teller_doorstromers'' \<notin> set labels"
    and nn: "''noemer_gediplomeerden'' \<notin> set labels"
    using nm by (force simp: measure_names_def)+
  let ?a = "\<lambda>k. sum_list (map int_val (group_values df_teller jt ct k))"
  let ?b = "\<lambda>k. sum_list (map int_val (group_values df_noemer jn cn k))"
  define tg where "tg = \<lparr>columns = jt @ [''teller_doorstromers''],
                          rows = map (\<lambda>k. k @ [Num (?a k)]) (group_keys df_teller jt)\<rparr>"
  define ng where "ng = \<lparr>columns = jn @ [''noemer_gediplomeerden''],
                          rows = map (\<lambda>k. k @ [Num (?b k)]) (group_keys df_noemer jn)\<rparr>"
  have gt: "groupby_sum df_teller jt ct ''teller_doorstromers'' = Inr tg"
    unfolding tg_def by (rule groupby_sum_counts [OF ct(4) dt])
  have gn: "groupby_sum df_noemer jn cn ''noemer_gediplomeerden'' = Inr ng"
    unfolding ng_def by (rule groupby_sum_counts [OF cn(4) dn])
  have gl: "generieke_labels labels labels jt jn = zip labels (zip jt jn)"
    using generieke_labels_zip [OF len, of labels] lt by simp
  note pr = zip3_projections [of labels jt jn, OF lt [symmetric] len]
  define tr where "tr = rename_keys (zip labels jt) tg"
  define nr where "nr = rename_keys (zip labels jn) ng"
  have ctr: "columns tr = labels @ [''teller_doorstromers'']"
    unfolding tr_def rename_keys_columns tg_def
    using renamed_columns_forward [OF dt dl nt lt] no_rename_collisionD [OF rt] lt by simp
  have cnr: "columns nr = labels @ [''noemer_gediplomeerden'']"
    unfolding nr_def rename_keys_columns ng_def
    using renamed_columns_forward [OF dn dl nn ln] no_rename_collisionD [OF rn] ln by simp
  have rtr: "rows tr = map (\<lambda>k. k @ [Num (?a k)]) (group_keys df_teller jt)"
    by (simp add: tr_def rename_keys_rows tg_def)
  have rnr: "rows nr = map (\<lambda>k. k @ [Num (?b k)]) (group_keys df_noemer jn)"
    by (simp add: nr_def rename_keys_rows ng_def)
  have lkt: "\<forall>k \<in> set (group_keys df_teller jt). length k = length labels"
    by (simp add: group_keys_length lt)
  have lkn: "\<forall>k \<in> set (group_keys df_noemer jn). length k = length labels"
    by (simp add: group_keys_length ln)
  \<comment> \<open>the merge goes through\<close>
  have m1: "\<not> list_ex (\<lambda>k. k \<notin> set (columns tr) \<or> k \<notin> set (columns nr)) labels"
    by (simp add: list_ex_iff ctr cnr)
  have m2: "\<not> list_ex (\<lambda>k. count_list (columns tr) k \<noteq> 1 \<or> count_list (columns nr) k \<noteq> 1) labels"
    unfolding list_ex_iff ctr cnr using dl nt nn
    by (auto simp: count_list_distinct)
  have m3: "\<not> list_ex (\<lambda>k. dtype_clash (column_values tr k) (column_values nr k)) labels"
  proof -
    have "\<not> dtype_clash (column_values tr (labels ! i)) (column_values nr (labels ! i))"
      if i: "i < length labels" for i
    proof -
      have a: "column_values tr (labels ! i) = map (\<lambda>k. k ! i) (group_keys df_teller jt)"
        unfolding column_values_def ctr rtr map_map comp_def
        by (rule map_cong [OF refl]) (use dl lkt i in \<open>simp add: cell_at_nth\<close>)
      have b: "column_values nr (labels ! i) = map (\<lambda>k. k ! i) (group_keys df_noemer jn)"
        unfolding column_values_def cnr rnr map_map comp_def
        by (rule map_cong [OF refl]) (use dl lkn i in \<open>simp add: cell_at_nth\<close>)
      from kind i lt show ?thesis
        unfolding a b keys_of_one_kind_def jt_def [symmetric] jn_def [symmetric]
        by (simp add: list_all_iff)
    qed
    then show ?thesis by (auto simp: list_ex_iff in_set_conv_nth)
  qed
  from m1 m2 m3 obtain dj where mg: "merge_inner tr nr labels = Inr dj"
    by (simp add: merge_inner_def Let_def)
  let ?ks = "filter (\<lambda>k. k \<in> set (group_keys df_noemer jn)) (group_keys df_teller jt)"
  have rdj: "rows dj = map (\<lambda>k. k @ [Num (?a k), Num (?b k)]) ?ks"
    unfolding merge_inner_InrD(3) [OF mg] ctr cnr rtr rnr
    by (rule merge_grouped_rows [OF dl nt nn lkt lkn group_keys_distinct])
  have cdj: "columns dj = labels @ [''teller_doorstromers'', ''noemer_gediplomeerden'']"
    unfolding merge_inner_InrD(4) [OF mg] ctr cnr
    by (rule merged_columns [OF nt nn]) simp
  have lks: "\<forall>k \<in> set ?ks. length k = length labels" using lkt by simp
  from add_percentage_counts [OF cdj rdj lks nt nn]
  obtain res where ap: "add_percentage dj = Inr res" by blast
  have "combine df_teller df_noemer map_teller map_noemer labels = Inr (Some res)"
    unfolding combine_def combine_teller_noemer_def
    using ct cn jne len gt gn mg ap
    by (simp add: jt_def [symmetric] jn_def [symmetric] gl pr Let_def
        tr_def [symmetric] nr_def [symmetric])
  then show ?thesis by blast
qed

subsection \<open>The claims about the engine\<close>

text \<open>
  C1, as stated, fails when a label is dropped: with \<open>jaar\<close> unmapped and \<open>sector_mbo\<close>
  mapped on both sides, the call succeeds and the only key column of the result is named
  \<open>jaar\<close>, which is not the set of the selected labels.
\<close>

theorem join_key_names_counterexample:
  "join_key_selection [''jaar'', ''sector_mbo'']
   \<and> combine sector_teller sector_noemer sector_map_teller sector_map_noemer
         [''jaar'', ''sector_mbo''] = Inr (Some sector_join)
   \<and> join_key_names sector_join = [''jaar'']
   \<and> set (join_key_names sector_join) \<noteq> set [''jaar'', ''sector_mbo'']"
proof -
  have 1: "join_key_selection [''jaar'', ''sector_mbo'']" by code_simp
  have 2: "combine sector_teller sector_noemer sector_map_teller sector_map_noemer
         [''jaar'', ''sector_mbo''] = Inr (Some sector_join)" by code_simp
  have 3: "join_key_names sector_join = [''jaar'']" by code_simp
  have 4: "set [''jaar''] \<noteq> set [''jaar'', ''sector_mbo'']" by simp
  from 1 2 3 4 show ?thesis by simp
qed

text \<open>
  C1, amended. Take a selection of join labels (labels of the vocabulary, each once) and a
  successful call in which every selected label resolves to a column (on the numerator
  side, and so, the counts being equal, on the denominator side). Then the join-key columns
  of the result are the selected labels, in their order, before the three measures; and
  the renaming is position for position: in every row of the result the column named by
  the i-th label holds the value that a row of the numerator has in the column its mapping
  gives for that label, and that a row of the denominator has in the column its mapping
  gives for that label.
\<close>

theorem join_key_names_are_the_labels:
  assumes ok: "combine df_teller df_noemer map_teller map_noemer labels = Inr (Some df_join)"
    and sel: "join_key_selection labels"
    and full: "length (join_cols map_teller df_teller labels) = length labels"
  shows "columns df_join = labels @ measure_names
       \<and> join_key_names df_join = labels
       \<and> set (join_key_names df_join) = set labels
       \<and> (\<forall>r \<in> set (rows df_join). \<exists>rt \<in> set (rows df_teller). \<exists>rn \<in> set (rows df_noemer).
            \<forall>i < length labels. \<exists>kol_t kol_n.
               map_teller (labels ! i) = Some kol_t \<and> map_noemer (labels ! i) = Some kol_n
             \<and> cell_at (columns df_join) (labels ! i) r = cell_at (columns df_teller) kol_t rt
             \<and> cell_at (columns df_join) (labels ! i) r = cell_at (columns df_noemer) kol_n rn)"
proof -
  define jt where "jt = join_cols map_teller df_teller labels"
  define jn where "jn = join_cols map_noemer df_noemer labels"
  from combine_success_form [OF ok sel jt_def jn_def] obtain ct cn where
    len: "length jt = length jn"
    and cols: "columns df_join = take (length jt) labels @ measure_names"
    and rws: "rows df_join = joined_rows df_teller df_noemer jt jn ct cn"
    by blast
  from full have lt: "length jt = length labels" by (simp add: jt_def)
  with len have ln: "length jn = length labels" by simp
  have c: "columns df_join = labels @ measure_names" using cols lt by simp
  have dis: "\<forall>l \<in> set labels. l \<notin> set measure_names"
    using selection_not_measure [OF sel] by blast
  have d: "distinct labels" using sel by (simp add: join_key_selection_def)
  have "filter (\<lambda>c. c \<notin> set measure_names) labels = labels"
    using dis by (simp add: filter_id_conv)
  moreover have "filter (\<lambda>c. c \<notin> set measure_names) measure_names = []"
    by (simp add: filter_empty_conv)
  ultimately have k: "join_key_names df_join = labels"
    by (simp add: join_key_names_def c)
  from join_cols_full [of map_teller df_teller labels] lt
  have mt: "map map_teller labels = map Some jt" by (simp add: jt_def)
  from join_cols_full [of map_noemer df_noemer labels] ln
  have mn: "map map_noemer labels = map Some jn" by (simp add: jn_def)
  have pos: "\<exists>rt \<in> set (rows df_teller). \<exists>rn \<in> set (rows df_noemer).
            \<forall>i < length labels. \<exists>kol_t kol_n.
               map_teller (labels ! i) = Some kol_t \<and> map_noemer (labels ! i) = Some kol_n
             \<and> cell_at (columns df_join) (labels ! i) r = cell_at (columns df_teller) kol_t rt
             \<and> cell_at (columns df_join) (labels ! i) r = cell_at (columns df_noemer) kol_n rn"
    if r: "r \<in> set (rows df_join)" for r
  proof -
    from r obtain k m where km: "r = k @ m" "k \<in> set (group_keys df_teller jt)"
      "k \<in> set (group_keys df_noemer jn)"
      unfolding rws joined_rows_def by auto
    from km(2) obtain rt where rt: "rt \<in> set (rows df_teller)"
      "k = key_of (columns df_teller) jt rt"
      by (auto simp: group_keys_set)
    from km(3) obtain rn where rn: "rn \<in> set (rows df_noemer)"
      "k = key_of (columns df_noemer) jn rn"
      by (auto simp: group_keys_set)
    have lk: "length k = length labels" using group_keys_length [OF km(2)] lt by simp
    have "\<exists>kol_t kol_n.
               map_teller (labels ! i) = Some kol_t \<and> map_noemer (labels ! i) = Some kol_n
             \<and> cell_at (columns df_join) (labels ! i) r = cell_at (columns df_teller) kol_t rt
             \<and> cell_at (columns df_join) (labels ! i) r = cell_at (columns df_noemer) kol_n rn"
      if i: "i < length labels" for i
    proof -
      have a: "map_teller (labels ! i) = Some (jt ! i)"
        using mt i lt by (metis length_map nth_map)
      have b: "map_noemer (labels ! i) = Some (jn ! i)"
        using mn i ln by (metis length_map nth_map)
      have v: "cell_at (columns df_join) (labels ! i) r = k ! i"
        unfolding c km(1) using d lk i by (rule cell_at_nth)
      have vt: "k ! i = cell_at (columns df_teller) (jt ! i) rt"
        unfolding rt(2) key_of_def using i lt by simp
      have vn: "k ! i = cell_at (columns df_noemer) (jn ! i) rn"
        unfolding rn(2) key_of_def using i ln by simp
      from a b v vt vn show ?thesis by simp
    qed
    with rt(1) rn(1) show ?thesis by blast
  qed
  from c k pos show ?thesis by simp
qed

theorem join_key_names_are_the_labels_witness:
  "columns jaar_join = [''jaar'', ''sector_mbo''] @ measure_names
   \<and> join_key_names jaar_join = [''jaar'', ''sector_mbo'']"
proof -
  have ok: "combine jaar_teller jaar_noemer jaar_map_teller jaar_map_noemer
              [''jaar'', ''sector_mbo''] = Inr (Some jaar_join)" by code_simp
  have sel: "join_key_selection [''jaar'', ''sector_mbo'']" by code_simp
  have full: "length (join_cols jaar_map_teller jaar_teller [''jaar'', ''sector_mbo''])
              = length [''jaar'', ''sector_mbo'']" by code_simp
  from join_key_names_are_the_labels [OF ok sel full] show ?thesis by blast
qed

text \<open>
  C2. With \<open>instelling_mbo\<close> mapped to a present column of the numerator and unmapped in the
  denominator, and \<open>regio_mbo\<close> the other way round, the two lists of resolved columns have
  the same length: the call does not fail, it joins the institution column of the numerator
  with the region column of the denominator under the name \<open>instelling_mbo\<close>.
\<close>

theorem unequal_labels_equal_counts:
  "scheef_map_teller ''instelling_mbo'' = Some ''Instelling''
   \<and> ''Instelling'' \<in> set (columns scheef_teller)
   \<and> scheef_map_noemer ''instelling_mbo'' = None
   \<and> join_cols scheef_map_teller scheef_teller [''instelling_mbo'', ''regio_mbo''] = [''Instelling'']
   \<and> join_cols scheef_map_noemer scheef_noemer [''instelling_mbo'', ''regio_mbo''] = [''Regio'']
   \<and> combine scheef_teller scheef_noemer scheef_map_teller scheef_map_noemer
        [''instelling_mbo'', ''regio_mbo''] = Inr (Some scheef_join)"
  by code_simp

text \<open>
  C3. With the labels \<open>jaar\<close> and \<open>sector_mbo\<close> both mapped to the column \<open>Jaar\<close> of the
  numerator, none of the failure conditions holds (both metric columns are present, the
  two lists of resolved columns have length 2), and the call raises \<open>ValueError\<close>. It also
  raises \<open>ValueError\<close> when the years of the numerator are numbers and those of the
  denominator are texts.
\<close>

theorem duplicate_mapping_raises:
  "join_cols dubbel_map_teller jaar_teller [''jaar'', ''sector_mbo''] = [''Jaar'', ''Jaar'']
   \<and> join_cols jaar_map_noemer jaar_noemer [''jaar'', ''sector_mbo''] = [''jaar'', ''sector'']
   \<and> combine jaar_teller jaar_noemer dubbel_map_teller jaar_map_noemer
        [''jaar'', ''sector_mbo''] = Inl ValueError
   \<and> combine jaar_teller tekst_noemer jaar_map_teller jaar_map_noemer
        [''jaar'', ''sector_mbo''] = Inl ValueError"
  by code_simp



text \<open>
  What holds of the join. It is an inner join: for a selection of join labels, the keys of the rows of
  a joined frame are exactly the key combinations that are groups of both aggregates,
  each once, in the order of the numerator groups. When the two aggregates share no key combination the frame returned
  has no rows and still has the key columns and the three measure columns. The function
  returns \<open>None\<close> only for the mapping and selection: a metric label that is unset or not a
  column, no resolved join column, or different numbers of resolved join columns. And it
  does return a frame, whether or not a key combination is shared, on every call that is
  well mapped on both sides and joins key columns of one kind.
\<close>

theorem inner_join_of_aggregates:
  assumes sel: "join_key_selection labels"
    and jt: "jt = join_cols map_teller df_teller labels"
    and jn: "jn = join_cols map_noemer df_noemer labels"
  shows "(combine df_teller df_noemer map_teller map_noemer labels = Inr (Some df_join) \<longrightarrow>
            map (take (length jt)) (rows df_join)
              = filter (\<lambda>k. k \<in> set (group_keys df_noemer jn)) (group_keys df_teller jt)
          \<and> distinct (map (take (length jt)) (rows df_join))
          \<and> set (map (take (length jt)) (rows df_join))
              = set (group_keys df_teller jt) \<inter> set (group_keys df_noemer jn)
          \<and> columns df_join = take (length jt) labels @ measure_names
          \<and> (set (group_keys df_teller jt) \<inter> set (group_keys df_noemer jn) = {}
               \<longrightarrow> rows df_join = []))
       \<and> (combine df_teller df_noemer map_teller map_noemer labels = Inr None \<longrightarrow>
            (case map_teller ''aantal_ho_instromers'' of None \<Rightarrow> True
             | Some col_teller \<Rightarrow> col_teller = [] \<or> col_teller \<notin> set (columns df_teller))
          \<or> (case map_noemer ''aantal_mbo_gediplomeerden'' of None \<Rightarrow> True
             | Some col_noemer \<Rightarrow> col_noemer = [] \<or> col_noemer \<notin> set (columns df_noemer))
          \<or> jt = [] \<or> length jt \<noteq> length jn)
       \<and> (labels \<noteq> []
            \<and> well_mapped df_teller map_teller ''aantal_ho_instromers'' labels
                  ''teller_doorstromers''
            \<and> well_mapped df_noemer map_noemer ''aantal_mbo_gediplomeerden'' labels
                  ''noemer_gediplomeerden''
            \<and> keys_of_one_kind df_teller df_noemer jt jn \<longrightarrow>
            (\<exists>res. combine df_teller df_noemer map_teller map_noemer labels = Inr (Some res)))"
proof (intro conjI impI)
  assume ok: "combine df_teller df_noemer map_teller map_noemer labels = Inr (Some df_join)"
  from combine_success_form [OF ok sel jt jn] obtain ct cn where
    cols: "columns df_join = take (length jt) labels @ measure_names"
    and rws: "rows df_join = joined_rows df_teller df_noemer jt jn ct cn"
    by blast
  show k: "map (take (length jt)) (rows df_join)
        = filter (\<lambda>k. k \<in> set (group_keys df_noemer jn)) (group_keys df_teller jt)"
    unfolding rws by (rule joined_rows_keys)
  show "distinct (map (take (length jt)) (rows df_join))"
    unfolding k by (simp add: group_keys_distinct)
  show "set (map (take (length jt)) (rows df_join))
        = set (group_keys df_teller jt) \<inter> set (group_keys df_noemer jn)"
    unfolding k by auto
  show "columns df_join = take (length jt) labels @ measure_names" by (rule cols)
  assume "set (group_keys df_teller jt) \<inter> set (group_keys df_noemer jn) = {}"
  then have "filter (\<lambda>k. k \<in> set (group_keys df_noemer jn)) (group_keys df_teller jt) = []"
    by (auto simp: filter_empty_conv)
  then show "rows df_join = []" unfolding rws joined_rows_def by simp
next
  assume "combine df_teller df_noemer map_teller map_noemer labels = Inr None"
  then show "(case map_teller ''aantal_ho_instromers'' of None \<Rightarrow> True
             | Some col_teller \<Rightarrow> col_teller = [] \<or> col_teller \<notin> set (columns df_teller))
          \<or> (case map_noemer ''aantal_mbo_gediplomeerden'' of None \<Rightarrow> True
             | Some col_noemer \<Rightarrow> col_noemer = [] \<or> col_noemer \<notin> set (columns df_noemer))
          \<or> jt = [] \<or> length jt \<noteq> length jn"
    unfolding combine_def combine_None_iff jt jn .
next
  assume a: "labels \<noteq> []
            \<and> well_mapped df_teller map_teller ''aantal_ho_instromers'' labels
                  ''teller_doorstromers''
            \<and> well_mapped df_noemer map_noemer ''aantal_mbo_gediplomeerden'' labels
                  ''noemer_gediplomeerden''
            \<and> keys_of_one_kind df_teller df_noemer jt jn"
  then have "keys_of_one_kind df_teller df_noemer (join_cols map_teller df_teller labels)
               (join_cols map_noemer df_noemer labels)"
    by (simp only: jt jn)
  with a show "\<exists>res. combine df_teller df_noemer map_teller map_noemer labels = Inr (Some res)"
    by (intro combine_returns_table [OF sel]) simp_all
qed

theorem inner_join_of_aggregates_witness:
  "combine zorg_teller techniek_noemer sector_map_teller sector_map_noemer [''sector_mbo'']
     = Inr (Some leeg_join)
   \<and> rows leeg_join = []
   \<and> columns leeg_join = take 1 [''sector_mbo''] @ measure_names
   \<and> map (take 2) (rows jaar_join) = [[Num 2021, Str ''Techniek''], [Num 2021, Str ''Zorg'']]
   \<and> combine zorg_teller techniek_noemer sector_map_teller sector_map_noemer [''jaar'']
       = Inr None
   \<and> (\<exists>res. combine zorg_teller techniek_noemer sector_map_teller sector_map_noemer
               [''sector_mbo''] = Inr (Some res))"
proof -
  have sel1: "join_key_selection [''sector_mbo'']"
    and sel2: "join_key_selection [''jaar'', ''sector_mbo'']"
    and sel3: "join_key_selection [''jaar'']"
    by code_simp+
  have j1: "[''Sector''] = join_cols sector_map_teller zorg_teller [''sector_mbo'']"
    "[''sector''] = join_cols sector_map_noemer techniek_noemer [''sector_mbo'']"
    by code_simp+
  have j2: "[''Jaar'', ''Sector''] = join_cols jaar_map_teller jaar_teller [''jaar'', ''sector_mbo'']"
    "[''jaar'', ''sector''] = join_cols jaar_map_noemer jaar_noemer [''jaar'', ''sector_mbo'']"
    by code_simp+
  have j3: "[] = join_cols sector_map_teller zorg_teller [''jaar'']"
    "[] = join_cols sector_map_noemer techniek_noemer [''jaar'']"
    by code_simp+
  have ok1: "combine zorg_teller techniek_noemer sector_map_teller sector_map_noemer
               [''sector_mbo''] = Inr (Some leeg_join)" by code_simp
  have ok2: "combine jaar_teller jaar_noemer jaar_map_teller jaar_map_noemer
               [''jaar'', ''sector_mbo''] = Inr (Some jaar_join)" by code_simp
  have no: "combine zorg_teller techniek_noemer sector_map_teller sector_map_noemer [''jaar'']
               = Inr None" by code_simp
  have e: "set (group_keys zorg_teller [''Sector'']) \<inter> set (group_keys techniek_noemer [''sector''])
           = {}" by code_simp
  have f: "filter (\<lambda>k. k \<in> set (group_keys jaar_noemer [''jaar'', ''sector'']))
             (group_keys jaar_teller [''Jaar'', ''Sector''])
           = [[Num 2021, Str ''Techniek''], [Num 2021, Str ''Zorg'']]" by code_simp
  from inner_join_of_aggregates [OF sel1 j1, of leeg_join] ok1 e
  have 1: "rows leeg_join = []" "columns leeg_join = take 1 [''sector_mbo''] @ measure_names"
    by simp_all
  from inner_join_of_aggregates [OF sel2 j2, of jaar_join] ok2 f
  have 2: "map (take 2) (rows jaar_join) = [[Num 2021, Str ''Techniek''], [Num 2021, Str ''Zorg'']]"
    by (simp add: numeral_2_eq_2)
  from inner_join_of_aggregates [OF sel3 j3, of leeg_join] no
  have 3: "combine zorg_teller techniek_noemer sector_map_teller sector_map_noemer [''jaar'']
       = Inr None" by simp
  have w: "[''sector_mbo''] \<noteq> []
      \<and> well_mapped zorg_teller sector_map_teller ''aantal_ho_instromers'' [''sector_mbo'']
            ''teller_doorstromers''
      \<and> well_mapped techniek_noemer sector_map_noemer ''aantal_mbo_gediplomeerden''
            [''sector_mbo''] ''noemer_gediplomeerden''
      \<and> keys_of_one_kind zorg_teller techniek_noemer [''Sector''] [''sector'']"
    by code_simp
  from inner_join_of_aggregates [OF sel1 j1, of leeg_join] w
  have 4: "\<exists>res. combine zorg_teller techniek_noemer sector_map_teller sector_map_noemer
               [''sector_mbo''] = Inr (Some res)" by blast
  from ok1 1 2 3 4 show ?thesis by simp
qed

text \<open>
  C6. The call does not return a table on every input whose aggregates share no key
  combination. With the years of the numerator numbers and those of the denominator texts,
  joined on \<open>jaar\<close>, both metric columns and both year columns are mapped and present, the
  two aggregates share no key, and the merge raises \<open>ValueError\<close>: no table with an empty
  row set comes back. With keys of one kind on both sides (sectors, both texts) and no
  shared key, the empty table with the key column and the three measure columns does come
  back.
\<close>

theorem no_shared_key_raises:
  "join_cols jaar_map_teller jaar_teller [''jaar''] = [''Jaar'']
   \<and> join_cols jaar_map_noemer tekst_noemer [''jaar''] = [''jaar'']
   \<and> jaar_map_teller ''aantal_ho_instromers'' = Some ''n_ho''
   \<and> ''n_ho'' \<in> set (columns jaar_teller)
   \<and> jaar_map_noemer ''aantal_mbo_gediplomeerden'' = Some ''n_mbo''
   \<and> ''n_mbo'' \<in> set (columns tekst_noemer)
   \<and> group_keys jaar_teller [''Jaar''] = [[Num 2020], [Num 2021]]
   \<and> group_keys tekst_noemer [''jaar''] = [[Str ''2021/2022'']]
   \<and> set (group_keys jaar_teller [''Jaar'']) \<inter> set (group_keys tekst_noemer [''jaar'']) = {}
   \<and> combine jaar_teller tekst_noemer jaar_map_teller jaar_map_noemer [''jaar'']
        = Inl ValueError
   \<and> combine zorg_teller techniek_noemer sector_map_teller sector_map_noemer [''sector_mbo'']
        = Inr (Some leeg_join)"
  by code_simp

subsection \<open>Regrouping the joined frame\<close>

lemma cell_at_prefix:
  assumes "s \<in> set ls" and "length k = length ls"
  shows "cell_at (ls @ ms) s (k @ m) = cell_at ls s k"
proof -
  from assms obtain v where v: "map_of (zip ls k) s = Some v"
    by (metis map_of_zip_is_None not_None_eq)
  then show ?thesis
    using assms(2) by (simp add: cell_at_def map_add_def)
qed

lemma key_of_prefix:
  "set ss \<subseteq> set ls \<Longrightarrow> length k = length ls \<Longrightarrow>
   key_of (ls @ ms) ss (k @ m) = key_of ls ss k"
  unfolding key_of_def by (rule map_cong [OF refl]) (auto simp: cell_at_prefix)

lemma cell_at_in_set:
  assumes "s \<in> set ls" and "length k = length ls"
  shows "cell_at ls s k \<in> set k"
proof -
  from assms obtain v where v: "map_of (zip ls k) s = Some v"
    by (metis map_of_zip_is_None not_None_eq)
  then have "(s, v) \<in> set (zip ls k)" by (rule map_of_SomeD)
  then have "v \<in> set k" by (rule set_zip_rightD)
  with v show ?thesis by (simp add: cell_at_def)
qed

lemma key_of_subset:
  "set ss \<subseteq> set ls \<Longrightarrow> length k = length ls \<Longrightarrow> set (key_of ls ss k) \<subseteq> set k"
  by (auto simp: key_of_def cell_at_in_set)

lemma cell_at_map:
  "s \<in> set ls \<Longrightarrow> cell_at ls s (map f ls) = f s"
  by (simp add: cell_at_def map_of_zip_map)

lemma key_of_project:
  assumes "set ss \<subseteq> set ls"
  shows "key_of cols (map t ss) r = key_of ls ss (key_of cols (map t ls) r)"
proof -
  have "key_of cols (map t ls) r = map (\<lambda>l. cell_at cols (t l) r) ls"
    by (simp add: key_of_def comp_def)
  moreover have "key_of ls ss (map (\<lambda>l. cell_at cols (t l) r) ls)
                 = map (\<lambda>s. cell_at cols (t s) r) ss"
    unfolding key_of_def by (rule map_cong [OF refl]) (use assms in \<open>auto simp: cell_at_map\<close>)
  ultimately show ?thesis by (simp add: key_of_def comp_def)
qed

lemma join_cols_resolved:
  "length (join_cols m df ls) = length ls \<Longrightarrow>
   \<forall>l \<in> set ls. \<exists>kol. m l = Some kol \<and> kol \<noteq> [] \<and> kol \<in> set (columns df)"
proof (induction ls)
  case Nil
  show ?case by simp
next
  case (Cons l ls)
  have le: "length (join_cols m df ls) \<le> length ls" by (rule join_cols_length)
  from Cons.prems le have "length (join_cols m df ls) = length ls"
    by (auto split: option.splits if_splits)
  moreover from Cons.prems le have "\<exists>kol. m l = Some kol \<and> kol \<noteq> [] \<and> kol \<in> set (columns df)"
    by (auto split: option.splits if_splits)
  ultimately show ?case using Cons.IH by simp
qed

lemma join_cols_map:
  "\<forall>l \<in> set ls. \<exists>kol. m l = Some kol \<and> kol \<noteq> [] \<and> kol \<in> set (columns df) \<Longrightarrow>
   join_cols m df ls = map (the \<circ> m) ls"
  by (induction ls) auto

lemma join_cols_columns:
  "columns df' = columns df \<Longrightarrow> join_cols m df' ls = join_cols m df ls"
  by (induction ls) (auto split: option.splits)

lemma sum_list_filter_disj:
  "\<forall>r \<in> set rs. \<not> (P r \<and> Q r) \<Longrightarrow>
   sum_list (map f (filter (\<lambda>r. P r \<or> Q r) rs))
   = sum_list (map f (filter P rs)) + (sum_list (map f (filter Q rs)) :: int)"
  by (induction rs) auto

lemma regroup_sum:
  "distinct xs \<Longrightarrow>
   (\<Sum>k \<leftarrow> xs. sum_list (map f (filter (\<lambda>r. key r = k) rs)))
   = (sum_list (map f (filter (\<lambda>r. key r \<in> set xs) rs)) :: int)"
proof (induction xs)
  case Nil
  show ?case by simp
next
  case (Cons x xs)
  have "sum_list (map f (filter (\<lambda>r. key r = x \<or> key r \<in> set xs) rs))
        = sum_list (map f (filter (\<lambda>r. key r = x) rs))
          + sum_list (map f (filter (\<lambda>r. key r \<in> set xs) rs))"
    by (rule sum_list_filter_disj) (use Cons.prems in auto)
  with Cons show ?case by simp
qed

lemma zip_totals2:
  assumes "map f xs = map Inr ts" and "map h xs = map Inr ns"
  shows "map (\<lambda>(k, t, n). k @ [t, n]) (zip xs (zip ts ns))
         = map (\<lambda>k. k @ [case f k of Inr s \<Rightarrow> s | Inl e \<Rightarrow> NA,
                           case h k of Inr s \<Rightarrow> s | Inl e \<Rightarrow> NA]) xs"
proof -
  from assms have l: "length ts = length xs" "length ns = length xs"
    by (metis length_map)+
  have "f (xs ! i) = Inr (ts ! i)" "h (xs ! i) = Inr (ns ! i)" if "i < length xs" for i
    using assms l that by (metis nth_map)+
  then show ?thesis
    using l by (auto simp: list_eq_iff_nth_eq)
qed

lemma per_groep_form:
  assumes ok: "per_groep df keys = Inr res"
    and np: "''doorstroompercentage'' \<notin> set keys"
  shows "columns res = keys @ measure_names"
    and "rows res = map (\<lambda>k. k @ [group_total df keys ''teller_doorstromers'' k,
                      group_total df keys ''noemer_gediplomeerden'' k,
                      pct_cell (group_total df keys ''teller_doorstromers'' k)
                        (group_total df keys ''noemer_gediplomeerden'' k)])
                   (group_keys df keys)"
proof -
  let ?gk = "group_keys df keys"
  from ok obtain ts ns where
    ts: "map (\<lambda>k. sum_cells (group_values df keys ''teller_doorstromers'' k)) ?gk = map Inr ts"
    and ns: "map (\<lambda>k. sum_cells (group_values df keys ''noemer_gediplomeerden'' k)) ?gk = map Inr ns"
    and d: "distinct (keys @ [''teller_doorstromers'', ''noemer_gediplomeerden''])"
    and ap: "add_percentage
               \<lparr>columns = keys @ [''teller_doorstromers'', ''noemer_gediplomeerden''],
                rows = map (\<lambda>(k, t, n). k @ [t, n]) (zip ?gk (zip ts ns))\<rparr> = Inr res"
    unfolding per_groep_def
    by (auto simp: collect_Inr_iff split: if_splits sum.splits)
  let ?dj = "\<lparr>columns = keys @ [''teller_doorstromers'', ''noemer_gediplomeerden''],
                rows = map (\<lambda>(k, t, n). k @ [t, n]) (zip ?gk (zip ts ns))\<rparr>"
  have c: "columns ?dj = keys @ [''teller_doorstromers'', ''noemer_gediplomeerden'']" by simp
  have r: "rows ?dj = map (\<lambda>k. k @ [group_total df keys ''teller_doorstromers'' k,
                                    group_total df keys ''noemer_gediplomeerden'' k]) ?gk"
    by (simp add: zip_totals2 [OF ts ns] group_total_def)
  have l: "\<forall>k \<in> set ?gk. length k = length keys" by (simp add: group_keys_length)
  from d have nt: "''teller_doorstromers'' \<notin> set keys"
    and nn: "''noemer_gediplomeerden'' \<notin> set keys" by auto
  note form = add_percentage_form [OF ap c r l nt nn np]
  show "columns res = keys @ measure_names" by (rule form(1))
  show "rows res = map (\<lambda>k. k @ [group_total df keys ''teller_doorstromers'' k,
                      group_total df keys ''noemer_gediplomeerden'' k,
                      pct_cell (group_total df keys ''teller_doorstromers'' k)
                        (group_total df keys ''noemer_gediplomeerden'' k)])
                   (group_keys df keys)"
    by (rule form(2))
qed

lemma cell_at_measures:
  assumes "\<forall>l \<in> set ls. l \<notin> set measure_names" and "length k = length ls"
  shows "cell_at (ls @ measure_names) ''teller_doorstromers'' (k @ [x, y, z]) = x"
    and "cell_at (ls @ measure_names) ''noemer_gediplomeerden'' (k @ [x, y, z]) = y"
proof -
  have "''teller_doorstromers'' \<notin> set ls" "''noemer_gediplomeerden'' \<notin> set ls"
    using assms(1) by (auto simp: measure_names_def)
  then show "cell_at (ls @ measure_names) ''teller_doorstromers'' (k @ [x, y, z]) = x"
    and "cell_at (ls @ measure_names) ''noemer_gediplomeerden'' (k @ [x, y, z]) = y"
    using assms(2) by (simp_all add: cell_at_append_right) (simp_all add: cell_at_def measure_names_def)
qed

lemma regrouped_values:
  assumes c: "columns df = ls @ measure_names"
    and r: "rows df = map (\<lambda>k. k @ [ta k, na k, pa k]) ks"
    and l: "\<forall>k \<in> set ks. length k = length ls"
    and sub: "set ss \<subseteq> set ls"
    and nm: "\<forall>l \<in> set ls. l \<notin> set measure_names"
  shows "group_values df ss ''teller_doorstromers'' g
           = map ta (filter (\<lambda>k. key_of ls ss k = g) ks)"
    and "group_values df ss ''noemer_gediplomeerden'' g
           = map na (filter (\<lambda>k. key_of ls ss k = g) ks)"
    and "map (key_of (columns df) ss) (rows df) = map (key_of ls ss) ks"
proof -
  have k: "key_of (columns df) ss (k @ [ta k, na k, pa k]) = key_of ls ss k"
    if "k \<in> set ks" for k
    unfolding c using sub l that by (simp add: key_of_prefix)
  have f: "filter (\<lambda>r. key_of (columns df) ss r = g) (rows df)
           = map (\<lambda>k. k @ [ta k, na k, pa k]) (filter (\<lambda>k. key_of ls ss k = g) ks)"
    unfolding r filter_map comp_def
    by (rule arg_cong [where f = "map _"], rule filter_cong [OF refl]) (simp add: k)
  have "group_values df ss ''teller_doorstromers'' g
        = map (cell_at (columns df) ''teller_doorstromers'')
            (map (\<lambda>k. k @ [ta k, na k, pa k]) (filter (\<lambda>k. key_of ls ss k = g) ks))"
    by (simp only: group_values_def f)
  also have "\<dots> = map ta (filter (\<lambda>k. key_of ls ss k = g) ks)"
    unfolding map_map comp_def c
    by (rule map_cong [OF refl]) (use l nm in \<open>simp add: cell_at_measures\<close>)
  finally show "group_values df ss ''teller_doorstromers'' g
           = map ta (filter (\<lambda>k. key_of ls ss k = g) ks)" .
  have "group_values df ss ''noemer_gediplomeerden'' g
        = map (cell_at (columns df) ''noemer_gediplomeerden'')
            (map (\<lambda>k. k @ [ta k, na k, pa k]) (filter (\<lambda>k. key_of ls ss k = g) ks))"
    by (simp only: group_values_def f)
  also have "\<dots> = map na (filter (\<lambda>k. key_of ls ss k = g) ks)"
    unfolding map_map comp_def c
    by (rule map_cong [OF refl]) (use l nm in \<open>simp add: cell_at_measures\<close>)
  finally show "group_values df ss ''noemer_gediplomeerden'' g
           = map na (filter (\<lambda>k. key_of ls ss k = g) ks)" .
  show "map (key_of (columns df) ss) (rows df) = map (key_of ls ss) ks"
    unfolding r map_map comp_def by (rule map_cong [OF refl]) (simp add: k)
qed

lemma sum_cells_nums:
  "sum_cells (map (\<lambda>k. Num (a k)) xs) = Inr (Num (\<Sum>k \<leftarrow> xs. a k))"
proof -
  have "list_all is_count (map (\<lambda>k. Num (a k)) xs)" by (simp add: list_all_iff)
  from sum_cells_counts [OF this] show ?thesis by (simp add: comp_def)
qed

lemma group_keys_surviving:
  assumes ks: "\<forall>k \<in> set ks. NA \<notin> set k \<and> length k = length ls
                \<and> (\<exists>r \<in> set (rows df). key_of (columns df) (map t ls) r = k)"
    and sub: "set ss \<subseteq> set ls"
    and df': "columns df' = columns df"
      "rows df' = filter (\<lambda>r. key_of (columns df) (map t ls) r \<in> set ks) (rows df)"
  shows "set (group_keys df' (map t ss)) = key_of ls ss ` set ks"
proof -
  have p: "key_of (columns df) (map t ss) r = key_of ls ss (key_of (columns df) (map t ls) r)"
    for r by (rule key_of_project [OF sub])
  have na: "NA \<notin> set (key_of ls ss k)" if "k \<in> set ks" for k
    using key_of_subset [OF sub, of k] ks that by auto
  show ?thesis
  proof (rule set_eqI, rule iffI)
    fix g assume "g \<in> set (group_keys df' (map t ss))"
    then obtain r where "r \<in> set (rows df)" "key_of (columns df) (map t ls) r \<in> set ks"
      "g = key_of (columns df) (map t ss) r"
      by (auto simp: group_keys_set df')
    then show "g \<in> key_of ls ss ` set ks" by (auto simp: p)
  next
    fix g assume "g \<in> key_of ls ss ` set ks"
    then obtain k where k: "k \<in> set ks" "g = key_of ls ss k" by blast
    with ks obtain r where r: "r \<in> set (rows df)" "key_of (columns df) (map t ls) r = k"
      by blast
    have "r \<in> set (rows df')" using r k(1) by (simp add: df')
    moreover have "key_of (columns df') (map t ss) r = g" using r k(2) by (simp add: df' p)
    moreover have "NA \<notin> set g" using na [OF k(1)] k(2) by simp
    ultimately show "g \<in> set (group_keys df' (map t ss))"
      unfolding group_keys_set by blast
  qed
qed

lemma group_sum_surviving:
  assumes sub: "set ss \<subseteq> set ls"
    and d: "distinct ks"
    and df': "columns df' = columns df"
      "rows df' = filter (\<lambda>r. key_of (columns df) (map t ls) r \<in> set ks) (rows df)"
  shows "sum_list (map int_val (group_values df' (map t ss) col g))
       = (\<Sum>k \<leftarrow> filter (\<lambda>k. key_of ls ss k = g) ks.
            sum_list (map int_val (group_values df (map t ls) col k)))"
proof -
  let ?key = "\<lambda>r. key_of (columns df) (map t ls) r"
  let ?f = "\<lambda>r. int_val (cell_at (columns df) col r)"
  have p: "key_of (columns df) (map t ss) r = key_of ls ss (?key r)" for r
    by (rule key_of_project [OF sub])
  have "map int_val (group_values df' (map t ss) col g)
        = map ?f (filter (\<lambda>r. ?key r \<in> set (filter (\<lambda>k. key_of ls ss k = g) ks)) (rows df))"
    unfolding group_values_def df' map_map comp_def filter_filter p
    by (rule arg_cong [where f = "map _"], rule filter_cong [OF refl]) auto
  moreover have "(\<Sum>k \<leftarrow> filter (\<lambda>k. key_of ls ss k = g) ks.
            sum_list (map int_val (group_values df (map t ls) col k)))
        = sum_list (map ?f (filter (\<lambda>r. ?key r \<in> set (filter (\<lambda>k. key_of ls ss k = g) ks))
                     (rows df)))"
    unfolding group_values_def map_map comp_def
    by (rule regroup_sum) (use d in simp)
  ultimately show ?thesis by simp
qed

lemma count_column_surviving:
  "count_column df col \<Longrightarrow> count_column (surviving df kc dj) col"
  by (auto simp: count_column_def surviving_def column_values_def list_all_iff)

lemma regrouping_core:
  assumes ok: "combine df_teller df_noemer map_teller map_noemer labels = Inr (Some df_join)"
    and sel: "join_key_selection labels"
    and full: "length (join_cols map_teller df_teller labels) = length labels"
    and ct: "map_teller ''aantal_ho_instromers'' = Some col_teller"
    and cn: "map_noemer ''aantal_mbo_gediplomeerden'' = Some col_noemer"
    and cct: "count_column df_teller col_teller"
    and ccn: "count_column df_noemer col_noemer"
    and selg: "join_key_selection groep"
    and sub: "set groep \<subseteq> set labels"
    and jt: "jt = join_cols map_teller df_teller labels"
    and jn: "jn = join_cols map_noemer df_noemer labels"
    and rg: "per_groep df_join groep = Inr df_groep"
    and ok': "combine (surviving df_teller jt df_join) (surviving df_noemer jn df_join)
                map_teller map_noemer groep = Inr (Some df_rerun)"
  shows "columns df_groep = groep @ measure_names"
    and "columns df_rerun = groep @ measure_names"
    and "set (rows df_rerun) = set (rows df_groep)"
    and "rows df_groep =
           map (\<lambda>g. g @ [Num (sum_list (map int_val (group_values df_join groep ''teller_doorstromers'' g))),
                          Num (sum_list (map int_val (group_values df_join groep ''noemer_gediplomeerden'' g))),
                          pct_cell
                            (Num (sum_list (map int_val (group_values df_join groep ''teller_doorstromers'' g))))
                            (Num (sum_list (map int_val (group_values df_join groep ''noemer_gediplomeerden'' g))))])
             (group_keys df_join groep)"
proof -
  define ks where "ks = filter (\<lambda>k. k \<in> set (group_keys df_noemer jn)) (group_keys df_teller jt)"
  define a where "a k = sum_list (map int_val (group_values df_teller jt col_teller k))" for k
  define b where "b k = sum_list (map int_val (group_values df_noemer jn col_noemer k))" for k
  define pi where "pi = key_of labels groep"
  define A where "A g = (\<Sum>k \<leftarrow> filter (\<lambda>k. pi k = g) ks. a k)" for g
  define B where "B g = (\<Sum>k \<leftarrow> filter (\<lambda>k. pi k = g) ks. b k)" for g
  define T' where "T' = surviving df_teller jt df_join"
  define N' where "N' = surviving df_noemer jn df_join"
  define tau_t where "tau_t = the \<circ> map_teller"
  define tau_n where "tau_n = the \<circ> map_noemer"
  \<comment> \<open>the joined frame\<close>
  from combine_success_form [OF ok sel jt jn] ct cn
  have len: "length jt = length jn"
    and cols: "columns df_join = take (length jt) labels @ measure_names"
    and rws: "rows df_join = joined_rows df_teller df_noemer jt jn col_teller col_noemer"
    by auto
  have lt: "length jt = length labels" using full jt by simp
  have ln: "length jn = length labels" using lt len by simp
  have c: "columns df_join = labels @ measure_names" using cols lt by simp
  have rJ: "rows df_join = map (\<lambda>k. k @ [Num (a k), Num (b k), pct_cell (Num (a k)) (Num (b k))]) ks"
    unfolding rws joined_rows_def ks_def a_def b_def
    by (simp only: group_total_counts [OF cct] group_total_counts [OF ccn])
  have keysJ: "map (take (length jt)) (rows df_join) = ks"
    unfolding rws ks_def by (rule joined_rows_keys)
  have dks: "distinct ks" unfolding ks_def by (simp add: group_keys_distinct)
  have lks: "\<forall>k \<in> set ks. length k = length labels"
    unfolding ks_def using lt by (auto dest: group_keys_length)
  have nm: "\<forall>l \<in> set labels. l \<notin> set measure_names"
    using selection_not_measure [OF sel] by blast
  \<comment> \<open>the resolved columns\<close>
  have res_t: "\<forall>l \<in> set labels. \<exists>kol. map_teller l = Some kol \<and> kol \<noteq> []
                 \<and> kol \<in> set (columns df_teller)"
    by (rule join_cols_resolved [OF full])
  have res_n: "\<forall>l \<in> set labels. \<exists>kol. map_noemer l = Some kol \<and> kol \<noteq> []
                 \<and> kol \<in> set (columns df_noemer)"
    by (rule join_cols_resolved) (use ln jn in simp)
  have jt_map: "jt = map tau_t labels"
    unfolding jt tau_t_def by (rule join_cols_map [OF res_t])
  have jn_map: "jn = map tau_n labels"
    unfolding jn tau_n_def by (rule join_cols_map [OF res_n])
  have cT': "columns T' = columns df_teller" and cN': "columns N' = columns df_noemer"
    by (simp_all add: T'_def N'_def surviving_def)
  have rT': "rows T' = filter (\<lambda>r. key_of (columns df_teller) (map tau_t labels) r \<in> set ks)
                        (rows df_teller)"
    unfolding T'_def surviving_def keysJ by (simp add: jt_map)
  have rN': "rows N' = filter (\<lambda>r. key_of (columns df_noemer) (map tau_n labels) r \<in> set ks)
                        (rows df_noemer)"
    unfolding N'_def surviving_def using keysJ len by (simp add: jn_map)
  have st: "join_cols map_teller T' groep = map tau_t groep"
    unfolding join_cols_columns [OF cT'] tau_t_def
    by (rule join_cols_map) (use res_t sub in blast)
  have sn: "join_cols map_noemer N' groep = map tau_n groep"
    unfolding join_cols_columns [OF cN'] tau_n_def
    by (rule join_cols_map) (use res_n sub in blast)
  \<comment> \<open>the keys of the groups\<close>
  have kt: "\<forall>k \<in> set ks. NA \<notin> set k \<and> length k = length labels
             \<and> (\<exists>r \<in> set (rows df_teller). key_of (columns df_teller) (map tau_t labels) r = k)"
    using lks unfolding ks_def jt_map by (auto simp: group_keys_set)
  have kn: "\<forall>k \<in> set ks. NA \<notin> set k \<and> length k = length labels
             \<and> (\<exists>r \<in> set (rows df_noemer). key_of (columns df_noemer) (map tau_n labels) r = k)"
    using lks unfolding ks_def jn_map by (auto simp: group_keys_set)
  have gT': "set (group_keys T' (map tau_t groep)) = pi ` set ks"
    unfolding pi_def by (rule group_keys_surviving [OF kt sub cT' rT'])
  have gN': "set (group_keys N' (map tau_n groep)) = pi ` set ks"
    unfolding pi_def by (rule group_keys_surviving [OF kn sub cN' rN'])
  have na: "NA \<notin> set (pi k)" if "k \<in> set ks" for k
    using key_of_subset [OF sub, of k] kt that unfolding pi_def by auto
  have gJ: "set (group_keys df_join groep) = pi ` set ks"
    unfolding group_keys_def regrouped_values(3) [OF c rJ lks sub nm] pi_def [symmetric]
    using na by auto
  \<comment> \<open>the sums of the groups\<close>
  have vJt: "group_values df_join groep ''teller_doorstromers'' g
             = map (\<lambda>k. Num (a k)) (filter (\<lambda>k. pi k = g) ks)" for g
    unfolding pi_def by (rule regrouped_values(1) [OF c rJ lks sub nm])
  have vJn: "group_values df_join groep ''noemer_gediplomeerden'' g
             = map (\<lambda>k. Num (b k)) (filter (\<lambda>k. pi k = g) ks)" for g
    unfolding pi_def by (rule regrouped_values(2) [OF c rJ lks sub nm])
  have sJt: "sum_list (map int_val (group_values df_join groep ''teller_doorstromers'' g)) = A g" for g
    unfolding vJt A_def by (simp add: comp_def)
  have sJn: "sum_list (map int_val (group_values df_join groep ''noemer_gediplomeerden'' g)) = B g" for g
    unfolding vJn B_def by (simp add: comp_def)
  have tJt: "group_total df_join groep ''teller_doorstromers'' g = Num (A g)" for g
    unfolding group_total_def vJt sum_cells_nums A_def by simp
  have tJn: "group_total df_join groep ''noemer_gediplomeerden'' g = Num (B g)" for g
    unfolding group_total_def vJn sum_cells_nums B_def by simp
  have tT': "group_total T' (map tau_t groep) col_teller g = Num (A g)" for g
  proof -
    have cc: "count_column T' col_teller"
      unfolding T'_def by (rule count_column_surviving [OF cct])
    have "sum_list (map int_val (group_values T' (map tau_t groep) col_teller g))
          = (\<Sum>k \<leftarrow> filter (\<lambda>k. key_of labels groep k = g) ks.
               sum_list (map int_val (group_values df_teller (map tau_t labels) col_teller k)))"
      by (rule group_sum_surviving [OF sub dks cT' rT'])
    also have "\<dots> = A g"
      by (simp only: A_def a_def pi_def jt_map)
    finally show ?thesis
      by (simp only: group_total_counts [OF cc])
  qed
  have tN': "group_total N' (map tau_n groep) col_noemer g = Num (B g)" for g
  proof -
    have cc: "count_column N' col_noemer"
      unfolding N'_def by (rule count_column_surviving [OF ccn])
    have "sum_list (map int_val (group_values N' (map tau_n groep) col_noemer g))
          = (\<Sum>k \<leftarrow> filter (\<lambda>k. key_of labels groep k = g) ks.
               sum_list (map int_val (group_values df_noemer (map tau_n labels) col_noemer k)))"
      by (rule group_sum_surviving [OF sub dks cN' rN'])
    also have "\<dots> = B g"
      by (simp only: B_def b_def pi_def jn_map)
    finally show ?thesis
      by (simp only: group_total_counts [OF cc])
  qed
  \<comment> \<open>the regrouped frame\<close>
  have np: "''doorstroompercentage'' \<notin> set groep"
    using selection_not_measure [OF selg] by (auto simp: measure_names_def)
  note pg = per_groep_form [OF rg np]
  show cg: "columns df_groep = groep @ measure_names" by (rule pg(1))
  have rG: "rows df_groep = map (\<lambda>g. g @ [Num (A g), Num (B g), pct_cell (Num (A g)) (Num (B g))])
                              (group_keys df_join groep)"
    unfolding pg(2) tJt tJn ..
  show "rows df_groep =
           map (\<lambda>g. g @ [Num (sum_list (map int_val (group_values df_join groep ''teller_doorstromers'' g))),
                          Num (sum_list (map int_val (group_values df_join groep ''noemer_gediplomeerden'' g))),
                          pct_cell
                            (Num (sum_list (map int_val (group_values df_join groep ''teller_doorstromers'' g))))
                            (Num (sum_list (map int_val (group_values df_join groep ''noemer_gediplomeerden'' g))))])
             (group_keys df_join groep)"
    unfolding sJt sJn by (rule rG)
  \<comment> \<open>the frame of the second run\<close>
  from combine_success_form [OF ok' [folded T'_def N'_def] selg st [symmetric] sn [symmetric]] ct cn
  have cols': "columns df_rerun = take (length (map tau_t groep)) groep @ measure_names"
    and rws': "rows df_rerun = joined_rows T' N' (map tau_t groep) (map tau_n groep)
                 col_teller col_noemer"
    by auto
  show "columns df_rerun = groep @ measure_names" using cols' by simp
  have "set (rows df_rerun)
        = (\<lambda>g. g @ [Num (A g), Num (B g), pct_cell (Num (A g)) (Num (B g))]) ` (pi ` set ks)"
    unfolding rws' joined_rows_def tT' tN' by (simp add: gT' gN')
  also have "\<dots> = set (rows df_groep)"
    unfolding rG by (simp add: gJ)
  finally show "set (rows df_rerun) = set (rows df_groep)" .
qed

text \<open>
  C4, as stated, fails when the inner join drops a key combination: the numerator has the
  sectors Zorg and Techniek in 2021 and the denominator only Zorg. Every row of both inputs
  is in the subgroup of the year 2021. Regrouping the joined frame by year gives 50 of 200,
  25 percent; running \<open>combine\<close> again for that subgroup, joined on the year, gives 80 of
  200, 40 percent.
\<close>

theorem regrouping_counterexample:
  "combine gat_teller gat_noemer jaar_map_teller jaar_map_noemer [''jaar'', ''sector_mbo'']
     = Inr (Some gat_join)
   \<and> per_groep gat_join [''jaar''] = Inr gat_per_jaar
   \<and> column_values gat_per_jaar ''doorstroompercentage'' = [Flt 25]
   \<and> isin_rows gat_teller ''Jaar'' [Num 2021] = gat_teller
   \<and> isin_rows gat_noemer ''jaar'' [Num 2021] = gat_noemer
   \<and> combine gat_teller gat_noemer jaar_map_teller jaar_map_noemer [''jaar'']
     = Inr (Some gat_rerun)
   \<and> column_values gat_rerun ''doorstroompercentage'' = [Flt 40]"
  by code_simp

text \<open>
  C4, amended. Let a call of \<open>combine\<close> in which every selected label resolves return the
  joined frame, over metric columns that hold counts, and let the frame be regrouped by a
  selection of its key columns. Running \<open>combine\<close> again with that selection as the join
  labels, on the rows of the two inputs that survive the inner join (the rows whose key
  combination is a key of the joined frame), gives the rows of the regrouped frame: for
  every group the same sum of \<open>teller_doorstromers\<close>, the same sum of
  \<open>noemer_gediplomeerden\<close>, and the same percentage, 100 times the one sum over the other
  (missing when the denominator sum is 0). The naive average of the percentages of the rows
  is another number: for two sectors with 30 of 40 and 50 of 200 the regrouped percentage
  is 100/3 and the average of 75 and 25 is 50.
\<close>

theorem regrouping_equals_rerun_on_surviving_rows:
  assumes ok: "combine df_teller df_noemer map_teller map_noemer labels = Inr (Some df_join)"
    and sel: "join_key_selection labels"
    and full: "length (join_cols map_teller df_teller labels) = length labels"
    and ct: "map_teller ''aantal_ho_instromers'' = Some col_teller"
    and cn: "map_noemer ''aantal_mbo_gediplomeerden'' = Some col_noemer"
    and cct: "count_column df_teller col_teller"
    and ccn: "count_column df_noemer col_noemer"
    and selg: "join_key_selection groep"
    and sub: "set groep \<subseteq> set labels"
    and jt: "jt = join_cols map_teller df_teller labels"
    and jn: "jn = join_cols map_noemer df_noemer labels"
    and rg: "per_groep df_join groep = Inr df_groep"
    and ok': "combine (surviving df_teller jt df_join) (surviving df_noemer jn df_join)
                map_teller map_noemer groep = Inr (Some df_rerun)"
  shows "columns df_rerun = columns df_groep
       \<and> set (rows df_rerun) = set (rows df_groep)
       \<and> (\<forall>g \<in> set (group_keys df_join groep).
            g @ [Num (sum_list (map int_val (group_values df_join groep ''teller_doorstromers'' g))),
                 Num (sum_list (map int_val (group_values df_join groep ''noemer_gediplomeerden'' g))),
                 if sum_list (map int_val (group_values df_join groep ''noemer_gediplomeerden'' g)) = 0
                 then NA
                 else Flt (100 * of_int (sum_list (map int_val
                                (group_values df_join groep ''teller_doorstromers'' g)))
                           / of_int (sum_list (map int_val
                                (group_values df_join groep ''noemer_gediplomeerden'' g))))]
            \<in> set (rows df_rerun))
       \<and> (per_groep twee_join [''jaar''] = Inr twee_per_jaar
            \<and> column_values twee_per_jaar ''doorstroompercentage'' = [Flt (100 / 3)]
            \<and> naive_average (column_values twee_join ''doorstroompercentage'') = Some 50)"
proof -
  note core = regrouping_core [OF ok sel full ct cn cct ccn selg sub jt jn rg ok']
  have 1: "columns df_rerun = columns df_groep" by (simp only: core(1) core(2))
  have 2: "set (rows df_rerun) = set (rows df_groep)" by (rule core(3))
  have 3: "\<forall>g \<in> set (group_keys df_join groep).
            g @ [Num (sum_list (map int_val (group_values df_join groep ''teller_doorstromers'' g))),
                 Num (sum_list (map int_val (group_values df_join groep ''noemer_gediplomeerden'' g))),
                 if sum_list (map int_val (group_values df_join groep ''noemer_gediplomeerden'' g)) = 0
                 then NA
                 else Flt (100 * of_int (sum_list (map int_val
                                (group_values df_join groep ''teller_doorstromers'' g)))
                           / of_int (sum_list (map int_val
                                (group_values df_join groep ''noemer_gediplomeerden'' g))))]
            \<in> set (rows df_rerun)"
    unfolding 2 core(4) pct_cell_nums by simp
  have 4: "per_groep twee_join [''jaar''] = Inr twee_per_jaar
            \<and> column_values twee_per_jaar ''doorstroompercentage'' = [Flt (100 / 3)]
            \<and> naive_average (column_values twee_join ''doorstroompercentage'') = Some 50"
    by code_simp
  show ?thesis by (intro conjI 1 2 3 4 [THEN conjunct1] 4 [THEN conjunct2, THEN conjunct1]
        4 [THEN conjunct2, THEN conjunct2])
qed

theorem regrouping_equals_rerun_on_surviving_rows_witness:
  "combine (surviving gat_teller [''Jaar'', ''Sector''] gat_join)
       (surviving gat_noemer [''jaar'', ''sector''] gat_join)
       jaar_map_teller jaar_map_noemer [''jaar''] = Inr (Some gat_per_jaar)
   \<and> per_groep gat_join [''jaar''] = Inr gat_per_jaar
   \<and> set (rows gat_per_jaar) = set (rows gat_per_jaar)
   \<and> [Num 2021] @ [Num 50, Num 200, Flt (100 * of_int 50 / of_int 200)] \<in> set (rows gat_per_jaar)"
proof -
  have ok: "combine gat_teller gat_noemer jaar_map_teller jaar_map_noemer
              [''jaar'', ''sector_mbo''] = Inr (Some gat_join)" by code_simp
  have sel: "join_key_selection [''jaar'', ''sector_mbo'']"
    and selg: "join_key_selection [''jaar'']" by code_simp+
  have full: "length (join_cols jaar_map_teller gat_teller [''jaar'', ''sector_mbo''])
              = length [''jaar'', ''sector_mbo'']" by code_simp
  have ct: "jaar_map_teller ''aantal_ho_instromers'' = Some ''n_ho''"
    and cn: "jaar_map_noemer ''aantal_mbo_gediplomeerden'' = Some ''n_mbo''"
    by (simp_all add: jaar_map_teller_def jaar_map_noemer_def)
  have cct: "count_column gat_teller ''n_ho''" and ccn: "count_column gat_noemer ''n_mbo''"
    by code_simp+
  have sub: "set [''jaar''] \<subseteq> set [''jaar'', ''sector_mbo'']" by simp
  have jt: "[''Jaar'', ''Sector''] = join_cols jaar_map_teller gat_teller [''jaar'', ''sector_mbo'']"
    and jn: "[''jaar'', ''sector''] = join_cols jaar_map_noemer gat_noemer [''jaar'', ''sector_mbo'']"
    by code_simp+
  have rg: "per_groep gat_join [''jaar''] = Inr gat_per_jaar" by code_simp
  have ok': "combine (surviving gat_teller [''Jaar'', ''Sector''] gat_join)
       (surviving gat_noemer [''jaar'', ''sector''] gat_join)
       jaar_map_teller jaar_map_noemer [''jaar''] = Inr (Some gat_per_jaar)" by code_simp
  have gk: "[Num 2021] \<in> set (group_keys gat_join [''jaar''])" by code_simp
  have s: "sum_list (map int_val (group_values gat_join [''jaar''] ''teller_doorstromers'' [Num 2021])) = 50"
    "sum_list (map int_val (group_values gat_join [''jaar''] ''noemer_gediplomeerden'' [Num 2021])) = 200"
    by code_simp+
  note inst = regrouping_equals_rerun_on_surviving_rows
         [OF ok sel full ct cn cct ccn selg sub jt jn rg ok']
  from inst [THEN conjunct2, THEN conjunct2, THEN conjunct1, THEN bspec, OF gk]
  have "[Num 2021] @ [Num 50, Num 200, Flt (100 * of_int 50 / of_int 200)] \<in> set (rows gat_per_jaar)"
    by (simp only: s) simp
  with ok' rg show ?thesis by simp
qed


end
